theory Spec2Isabelle
  imports Complex_Main
begin

section \<open>Python floats\<close>

text \<open>
  Every number of the pipeline is a Python float. A float is modelled as a real number
  (rounding and overflow of finite arithmetic are left out, and the two zeros are one),
  or one of the three special values the code tests for or produces by dividing by zero:
  the two infinities and NaN. The operations follow IEEE 754 on the special values, as
  numpy and pandas arithmetic does (no exception is raised by a division by zero there).
\<close>

datatype pyfloat = Fin real | PInf | NInf | NaN

fun is_nan :: "pyfloat \<Rightarrow> bool" where
  "is_nan NaN = True"
| "is_nan _ = False"

fun is_finite :: "pyfloat \<Rightarrow> bool" where
  "is_finite (Fin _) = True"
| "is_finite _ = False"

fun fneg :: "pyfloat \<Rightarrow> pyfloat" where
  "fneg (Fin a) = Fin (- a)"
| "fneg PInf = NInf"
| "fneg NInf = PInf"
| "fneg NaN = NaN"

fun fabs :: "pyfloat \<Rightarrow> pyfloat" where
  "fabs (Fin a) = Fin \<bar>a\<bar>"
| "fabs PInf = PInf"
| "fabs NInf = PInf"
| "fabs NaN = NaN"

fun fadd :: "pyfloat \<Rightarrow> pyfloat \<Rightarrow> pyfloat" where
  "fadd NaN _ = NaN"
| "fadd _ NaN = NaN"
| "fadd (Fin a) (Fin b) = Fin (a + b)"
| "fadd PInf NInf = NaN"
| "fadd NInf PInf = NaN"
| "fadd PInf _ = PInf"
| "fadd _ PInf = PInf"
| "fadd NInf _ = NInf"
| "fadd _ NInf = NInf"

definition fsub :: "pyfloat \<Rightarrow> pyfloat \<Rightarrow> pyfloat" where
  "fsub a b = fadd a (fneg b)"

text \<open>The sign of a float that is not NaN: \<open>-1\<close>, \<open>0\<close> or \<open>1\<close>.\<close>

fun fsign :: "pyfloat \<Rightarrow> int" where
  "fsign (Fin a) = (if a < 0 then - 1 else if a = 0 then 0 else 1)"
| "fsign PInf = 1"
| "fsign NInf = - 1"
| "fsign NaN = 0"

fun fmul :: "pyfloat \<Rightarrow> pyfloat \<Rightarrow> pyfloat" where
  "fmul NaN _ = NaN"
| "fmul _ NaN = NaN"
| "fmul (Fin a) (Fin b) = Fin (a * b)"
| "fmul a b =
     (if fsign a * fsign b = 0 then NaN
      else if fsign a * fsign b > 0 then PInf else NInf)"

fun fdiv :: "pyfloat \<Rightarrow> pyfloat \<Rightarrow> pyfloat" where
  "fdiv NaN _ = NaN"
| "fdiv _ NaN = NaN"
| "fdiv (Fin a) (Fin b) =
     (if b \<noteq> 0 then Fin (a / b)
      else if a > 0 then PInf else if a < 0 then NInf else NaN)"
| "fdiv (Fin a) _ = Fin 0"
| "fdiv PInf (Fin b) = (if b < 0 then NInf else PInf)"
| "fdiv NInf (Fin b) = (if b < 0 then PInf else NInf)"
| "fdiv _ _ = NaN"

text \<open>Comparisons: every comparison with NaN is false.\<close>

fun flt :: "pyfloat \<Rightarrow> pyfloat \<Rightarrow> bool" where
  "flt NaN _ = False"
| "flt _ NaN = False"
| "flt (Fin a) (Fin b) = (a < b)"
| "flt NInf NInf = False"
| "flt NInf _ = True"
| "flt PInf _ = False"
| "flt (Fin a) PInf = True"
| "flt (Fin a) NInf = False"

definition fgt :: "pyfloat \<Rightarrow> pyfloat \<Rightarrow> bool" where
  "fgt a b = flt b a"

text \<open>
  Python's builtin \<open>min(a, b)\<close> returns \<open>a\<close> unless \<open>b < a\<close>. numpy's \<open>clip\<close>
  propagates NaN.
\<close>

definition py_min :: "pyfloat \<Rightarrow> pyfloat \<Rightarrow> pyfloat" where
  "py_min a b = (if flt b a then b else a)"

definition np_clip :: "pyfloat \<Rightarrow> real \<Rightarrow> real \<Rightarrow> pyfloat" where
  "np_clip x lo hi =
     (if is_nan x then NaN
      else if flt x (Fin lo) then Fin lo
      else if fgt x (Fin hi) then Fin hi
      else x)"

section \<open>The indicator set and the classifiers of app.py\<close>

text \<open>
  The indicator set is a Python dict from indicator names to floats;
  \<open>indicators.get(key, default)\<close> reads it.
\<close>

type_synonym indicators = "string \<rightharpoonup> pyfloat"

definition dict_get :: "indicators \<Rightarrow> string \<Rightarrow> pyfloat \<Rightarrow> pyfloat" where
  "dict_get d k dflt = (case d k of Some v \<Rightarrow> v | None \<Rightarrow> dflt)"

text \<open>
  The classifiers return string literals; the three sets of literals are modelled as
  enumerations: \<open>'BUY'\<close>, \<open>'SELL'\<close>, \<open>'HOLD'\<close>; the three trend labels
  (each followed by a pictogram in the source); \<open>'High'\<close>, \<open>'Medium'\<close>, \<open>'Low'\<close>.
\<close>

datatype signal_decision = BUY | SELL | HOLD

datatype trend_label = Bullish | Bearish | Neutral

datatype risk_level = High | Medium | Low

text \<open>
  \<open>determine_signal\<close> counts votes in two local counters and compares them.
  \<open>buy_signals\<close> and \<open>sell_signals\<close> are the values of the counters after the two
  \<open>if\<close>/\<open>elif\<close> blocks.
\<close>

definition buy_signals :: "indicators \<Rightarrow> nat" where
  "buy_signals ind =
     (let rsi = dict_get ind ''rsi'' (Fin 50);
          macd = dict_get ind ''macd'' (Fin 0);
          b0 = 0;
          b1 = (if flt rsi (Fin 30) then b0 + 1 else b0);
          b2 = (if fgt macd (Fin 0) then b1 + 1 else b1)
      in b2)"

definition sell_signals :: "indicators \<Rightarrow> nat" where
  "sell_signals ind =
     (let rsi = dict_get ind ''rsi'' (Fin 50);
          macd = dict_get ind ''macd'' (Fin 0);
          s0 = 0;
          s1 = (if flt rsi (Fin 30) then s0 else if fgt rsi (Fin 70) then s0 + 1 else s0);
          s2 = (if fgt macd (Fin 0) then s1 else if flt macd (Fin 0) then s1 + 1 else s1)
      in s2)"

definition determine_signal :: "indicators \<Rightarrow> signal_decision" where
  "determine_signal ind =
     (if buy_signals ind > sell_signals ind then BUY
      else if sell_signals ind > buy_signals ind then SELL
      else HOLD)"

text \<open>\<open>determine_trend\<close> takes the timeframe and never reads it.\<close>

definition determine_trend :: "indicators \<Rightarrow> string \<Rightarrow> trend_label" where
  "determine_trend ind timeframe =
     (let ma20 = dict_get ind ''ma20'' (Fin 0);
          ma50 = dict_get ind ''ma50'' (Fin 0)
      in if fgt ma20 ma50 then Bullish
         else if flt ma20 ma50 then Bearish
         else Neutral)"

definition determine_risk_level :: "indicators \<Rightarrow> risk_level" where
  "determine_risk_level ind =
     (let rsi = dict_get ind ''rsi'' (Fin 50)
      in if fgt rsi (Fin 70) \<or> flt rsi (Fin 30) then High
         else if fgt rsi (Fin 60) \<or> flt rsi (Fin 40) then Medium
         else Low)"

text \<open>The order of the risk levels, for monotonicity statements.\<close>

fun risk_rank :: "risk_level \<Rightarrow> nat" where
  "risk_rank Low = 0"
| "risk_rank Medium = 1"
| "risk_rank High = 2"

section \<open>predictors.py: confidence and the horizon prediction\<close>

text \<open>
  \<open>calculate_confidence(volatility, data_points)\<close>. The body is inside a
  \<open>try\<close>; no operation of it raises on a float and an int.
  \<open>confidence_before_clip\<close> is the value of the local variable \<open>confidence\<close>
  when \<open>np.clip\<close> is reached.
\<close>

definition confidence_before_clip :: "pyfloat \<Rightarrow> int \<Rightarrow> pyfloat" where
  "confidence_before_clip volatility data_points =
     (let confidence = Fin 70;
          confidence = fsub confidence (py_min (fmul volatility (Fin 2)) (Fin 30));
          confidence = (if data_points < 30
                        then fsub confidence (Fin (of_int (30 - data_points)))
                        else confidence)
      in confidence)"

definition calculate_confidence :: "pyfloat \<Rightarrow> int \<Rightarrow> pyfloat" where
  "calculate_confidence volatility data_points =
     np_clip (confidence_before_clip volatility data_points) 0 100"


text \<open>
  \<open>np.random.uniform(low, high)\<close> consumes one draw \<open>u\<close> of the generator, a
  number of the unit interval, and returns \<open>low + (high - low) * u\<close>; it raises
  OverflowError when \<open>high - low\<close> is not finite. The draw is an explicit argument.
\<close>

datatype error = IndexError | ValueError | OverflowError

definition np_random_uniform :: "pyfloat \<Rightarrow> pyfloat \<Rightarrow> real \<Rightarrow> error + pyfloat" where
  "np_random_uniform low high u =
     (if is_finite (fsub high low)
      then Inr (fadd low (fmul (fsub high low) (Fin u)))
      else Inl OverflowError)"

definition predict_next_period ::
  "pyfloat \<Rightarrow> pyfloat \<Rightarrow> pyfloat \<Rightarrow> int \<Rightarrow> real \<Rightarrow> error + pyfloat" where
  "predict_next_period current_price trend_strength volatility hours u =
     (let trend_factor =
            fadd (Fin 1) (fmul (fmul trend_strength (Fin 0.001)) (Fin (of_int hours)))
      in case np_random_uniform (fdiv (fneg volatility) (Fin 100))
                (fdiv volatility (Fin 100)) u of
           Inl e \<Rightarrow> Inl e
         | Inr random_factor \<Rightarrow>
             Inr (fmul (fmul current_price trend_factor) (fadd (Fin 1) random_factor)))"

text \<open>
  Python's slice \<open>xs[-n:]\<close>: the last \<open>n\<close> elements, all of them when there are
  fewer, and the whole list for \<open>n = 0\<close> (\<open>xs[-0:]\<close> is \<open>xs[0:]\<close>).
\<close>

definition last_n :: "nat \<Rightarrow> 'a list \<Rightarrow> 'a list" where
  "last_n n xs = (if n = 0 then xs else drop (length xs - n) xs)"

text \<open>
  \<open>np.diff(a) / a[:-1]\<close>: the simple returns. A zero price gives an infinity or NaN,
  not an exception.
\<close>

definition simple_returns :: "real list \<Rightarrow> pyfloat list" where
  "simple_returns ps =
     map (\<lambda>i. fdiv (Fin (ps ! (i + 1) - ps ! i)) (Fin (ps ! i))) [0..<length ps - 1]"

fun fin_opt :: "pyfloat \<Rightarrow> real option" where
  "fin_opt (Fin r) = Some r"
| "fin_opt _ = None"

definition mean :: "real list \<Rightarrow> real" where
  "mean rs = sum_list rs / real (length rs)"

text \<open>
  \<open>np.std\<close>: the population standard deviation; NaN for an empty array and for an
  array that holds a value that is not finite.
\<close>

definition np_std :: "pyfloat list \<Rightarrow> pyfloat" where
  "np_std xs =
     (case those (map fin_opt xs) of
        None \<Rightarrow> NaN
      | Some rs \<Rightarrow>
          if rs = [] then NaN
          else Fin (sqrt (mean (map (\<lambda>x. (x - mean rs)\<^sup>2) rs))))"

text \<open>
  \<open>calculate_volatility\<close> of predictors.py (app.py has a function of the same name,
  \<open>app_calculate_volatility\<close> below). Nothing in its \<open>try\<close> raises on a list of
  floats.
\<close>

definition calculate_volatility :: "real list \<Rightarrow> nat \<Rightarrow> pyfloat" where
  "calculate_volatility prices period =
     (let prices = last_n period prices;
          returns = simple_returns prices;
          volatility = fmul (np_std returns) (Fin 100)
      in volatility)"

text \<open>
  \<open>calculate_trend_strength\<close>: \<open>prices[-1]\<close> raises IndexError on an empty list,
  which the \<open>except\<close> turns into \<open>0.0\<close>.
\<close>

definition calculate_trend_strength ::
  "real list \<Rightarrow> pyfloat \<Rightarrow> pyfloat \<Rightarrow> pyfloat \<Rightarrow> pyfloat \<Rightarrow> pyfloat" where
  "calculate_trend_strength prices ma20 ma50 rsi macd =
     (if prices = [] then Fin 0.0
      else
        let current_price = Fin (last prices);
            strength = (0::real);
            strength = (if fgt current_price ma20 then strength + 0.3
                        else if flt current_price ma20 then strength - 0.3 else strength);
            strength = (if fgt ma20 ma50 then strength + 0.2
                        else if flt ma20 ma50 then strength - 0.2 else strength);
            strength = (if fgt rsi (Fin 70) then strength - 0.3
                        else if fgt rsi (Fin 50) then strength + 0.15
                        else if flt rsi (Fin 30) then strength + 0.3
                        else if flt rsi (Fin 50) then strength - 0.15 else strength);
            strength = (if fgt macd (Fin 0) then strength + 0.2
                        else if flt macd (Fin 0) then strength - 0.2 else strength)
        in np_clip (Fin strength) (- 1) 1)"

text \<open>
  \<open>linear_regression_predict\<close> fits scikit-learn's \<open>LinearRegression\<close> (ordinary least
  squares with an intercept) of the last 30 prices against their positions
  \<open>0, 1, ..., n - 1\<close> and evaluates the line at \<open>n + periods_ahead\<close>. The library is
  not part of the repository; \<open>ols_fit\<close> is the least-squares line: slope
  \<open>Sxy / Sxx\<close>, intercept \<open>mean y - slope * mean x\<close>, and slope \<open>0\<close> for a single
  sample (the minimum-norm solution). On an empty array the fit raises ValueError and
  the \<open>except\<close> returns \<open>0.0\<close>, the list being empty.
\<close>

definition ols_fit :: "real list \<Rightarrow> real list \<Rightarrow> real \<times> real" where
  "ols_fit xs ys =
     (let xbar = mean xs;
          ybar = mean ys;
          sxx = sum_list (map (\<lambda>x. (x - xbar)\<^sup>2) xs);
          sxy = sum_list (map (\<lambda>(x, y). (x - xbar) * (y - ybar)) (zip xs ys));
          coef = (if sxx = 0 then 0 else sxy / sxx);
          intercept = ybar - coef * xbar
      in (coef, intercept))"

definition linear_regression_predict :: "real list \<Rightarrow> nat \<Rightarrow> pyfloat" where
  "linear_regression_predict prices periods_ahead =
     (let data = last_n 30 prices;
          X = map real [0..<length data];
          y = data
      in if data = [] then Fin 0.0
         else
           let (coef, intercept) = ols_fit X y;
               future_x = real (length data + periods_ahead);
               prediction = intercept + coef * future_x
           in Fin prediction)"


section \<open>The price series\<close>

text \<open>
  \<open>stock_data\<close> is a dict of parallel lists under the keys \<open>'close'\<close>, \<open>'high'\<close>,
  \<open>'low'\<close> and \<open>'volume'\<close> (and \<open>'dates'\<close> and \<open>'open'\<close>, which no computation
  reads). Every entry is a finite number, so \<open>float(x)\<close> is the identity on it.
\<close>

record stock_data =
  closes :: "real list"
  highs :: "real list"
  lows :: "real list"
  volumes :: "real list"

text \<open>
  \<open>predict_price\<close>. The generator is the sequence \<open>rng\<close> of its draws; the three
  horizon predictions consume draws 0, 1 and 2 in the order of the dict literal. An
  exception anywhere in the \<open>try\<close> (\<open>closes[-1]\<close> on an empty list, OverflowError of
  the draw) gives the fallback dict.
\<close>

definition predict_price_fallback :: "stock_data \<Rightarrow> indicators" where
  "predict_price_fallback sd =
     (let current = (if closes sd \<noteq> [] then Fin (last (closes sd)) else Fin 100.0)
      in [''next_hour'' \<mapsto> current, ''next_day'' \<mapsto> current,
          ''next_week'' \<mapsto> current, ''confidence'' \<mapsto> Fin 50])"

definition predict_price :: "stock_data \<Rightarrow> indicators \<Rightarrow> (nat \<Rightarrow> real) \<Rightarrow> indicators" where
  "predict_price sd ind rng =
     (let cs = closes sd
      in if cs = [] then predict_price_fallback sd
         else
           let current_price = Fin (last cs);
               rsi = dict_get ind ''rsi'' (Fin 50);
               macd = dict_get ind ''macd'' (Fin 0);
               ma20 = dict_get ind ''ma20'' current_price;
               ma50 = dict_get ind ''ma50'' current_price;
               volatility = calculate_volatility cs 20;
               trend_strength = calculate_trend_strength cs ma20 ma50 rsi macd
           in case predict_next_period current_price trend_strength volatility 1 (rng 0) of
                Inl e \<Rightarrow> predict_price_fallback sd
              | Inr next_hour \<Rightarrow>
             (case predict_next_period current_price trend_strength volatility 24 (rng 1) of
                Inl e \<Rightarrow> predict_price_fallback sd
              | Inr next_day \<Rightarrow>
             (case predict_next_period current_price trend_strength volatility 168 (rng 2) of
                Inl e \<Rightarrow> predict_price_fallback sd
              | Inr next_week \<Rightarrow>
                  [''next_hour'' \<mapsto> next_hour, ''next_day'' \<mapsto> next_day,
                   ''next_week'' \<mapsto> next_week,
                   ''confidence'' \<mapsto> calculate_confidence volatility (int (length cs)),
                   ''ml_prediction'' \<mapsto> linear_regression_predict cs 5])))"

section \<open>app.py: volatility, support and resistance\<close>

definition app_calculate_volatility :: "stock_data \<Rightarrow> pyfloat" where
  "app_calculate_volatility sd =
     (let cs = closes sd
      in if length cs < 2 then Fin 0
         else
           let returns = simple_returns cs;
               volatility = fmul (fmul (np_std returns) (Fin (sqrt 252))) (Fin 100)
           in volatility)"

definition calculate_support :: "stock_data \<Rightarrow> pyfloat" where
  "calculate_support sd =
     (let ls = lows sd
      in if ls = [] then Fin 0 else Fin (Min (set (last_n 20 ls))))"

definition calculate_resistance :: "stock_data \<Rightarrow> pyfloat" where
  "calculate_resistance sd =
     (let hs = highs sd
      in if hs = [] then Fin 0 else Fin (Max (set (last_n 20 hs))))"

section \<open>indicators.py: pandas series\<close>

text \<open>
  A pandas \<open>Series\<close> of floats with the default index \<open>0, 1, ..., n - 1\<close> is the list
  of its values. A binary operation on two series aligns them by index: where one of
  them has no entry the operand is NaN.
\<close>

type_synonym series = "pyfloat list"

definition pd_Series :: "real list \<Rightarrow> series" where
  "pd_Series xs = map Fin xs"

definition series_at :: "series \<Rightarrow> nat \<Rightarrow> pyfloat" where
  "series_at s i = (if i < length s then s ! i else NaN)"

definition series_op :: "(pyfloat \<Rightarrow> pyfloat \<Rightarrow> pyfloat) \<Rightarrow> series \<Rightarrow> series \<Rightarrow> series" where
  "series_op f a b = map (\<lambda>i. f (series_at a i) (series_at b i)) [0..<max (length a) (length b)]"

text \<open>\<open>s.diff()\<close> and \<open>s.shift()\<close>: the first entry is NaN.\<close>

definition series_diff :: "series \<Rightarrow> series" where
  "series_diff s = map (\<lambda>i. if i = 0 then NaN else fsub (s ! i) (s ! (i - 1))) [0..<length s]"

definition series_shift :: "series \<Rightarrow> series" where
  "series_shift s = map (\<lambda>i. if i = 0 then NaN else s ! (i - 1)) [0..<length s]"

text \<open>
  \<open>s.rolling(window=w)\<close> followed by an aggregation: the entry at \<open>i\<close> aggregates the
  \<open>w\<close> values ending at \<open>i\<close>. It is NaN where fewer than \<open>w\<close> values are available
  (\<open>min_periods\<close> defaults to the window) and where the window holds a NaN or an
  infinity (pandas turns infinities into NaN before a rolling aggregation).
\<close>

definition window_values :: "nat \<Rightarrow> series \<Rightarrow> nat \<Rightarrow> real list option" where
  "window_values w s i = those (map fin_opt (take w (drop (i + 1 - w) s)))"

definition rolling :: "(real list \<Rightarrow> pyfloat) \<Rightarrow> nat \<Rightarrow> series \<Rightarrow> series" where
  "rolling agg w s =
     map (\<lambda>i. if w = 0 \<or> i + 1 < w then NaN
              else case window_values w s i of
                     None \<Rightarrow> NaN
                   | Some rs \<Rightarrow> agg rs)
         [0..<length s]"

definition agg_mean :: "real list \<Rightarrow> pyfloat" where
  "agg_mean rs = Fin (mean rs)"

definition agg_min :: "real list \<Rightarrow> pyfloat" where
  "agg_min rs = Fin (Min (set rs))"

definition agg_max :: "real list \<Rightarrow> pyfloat" where
  "agg_max rs = Fin (Max (set rs))"

text \<open>\<open>std()\<close> of a rolling window is the sample standard deviation (\<open>ddof = 1\<close>).\<close>

definition agg_std :: "real list \<Rightarrow> pyfloat" where
  "agg_std rs =
     (if length rs \<le> 1 then NaN
      else Fin (sqrt (sum_list (map (\<lambda>x. (x - mean rs)\<^sup>2) rs) / real (length rs - 1))))"

text \<open>
  \<open>s.ewm(span=n, adjust=False).mean()\<close>: \<open>y\<^sub>0 = x\<^sub>0\<close> and
  \<open>y\<^sub>t = (1 - \<alpha>) * y\<^sub>t\<^sub>-\<^sub>1 + \<alpha> * x\<^sub>t\<close> with \<open>\<alpha> = 2 / (n + 1)\<close>. Every series the
  code smooths is finite, so these series are lists of reals.
\<close>

fun ewm_from :: "real \<Rightarrow> real \<Rightarrow> real list \<Rightarrow> real list" where
  "ewm_from \<alpha> y [] = []"
| "ewm_from \<alpha> y (x # xs) = (let y' = (1 - \<alpha>) * y + \<alpha> * x in y' # ewm_from \<alpha> y' xs)"

definition ewm_mean :: "nat \<Rightarrow> real list \<Rightarrow> real list" where
  "ewm_mean spn xs =
     (case xs of [] \<Rightarrow> [] | x # rest \<Rightarrow> x # ewm_from (2 / (real spn + 1)) x rest)"


section \<open>indicators.py: the indicators\<close>

text \<open>
  Each function returns the latest entry of a series, read with \<open>iloc[-1]\<close> behind a
  test that the series is not empty. The intermediate series of \<open>calculate_rsi\<close> are
  definitions of their own, so that statements can name them.
\<close>

definition rsi_gain :: "real list \<Rightarrow> nat \<Rightarrow> series" where
  "rsi_gain prices period =
     (let delta = series_diff (pd_Series prices)
      in rolling agg_mean period (map (\<lambda>x. if fgt x (Fin 0) then x else Fin 0) delta))"

definition rsi_loss :: "real list \<Rightarrow> nat \<Rightarrow> series" where
  "rsi_loss prices period =
     (let delta = series_diff (pd_Series prices)
      in rolling agg_mean period
           (map fneg (map (\<lambda>x. if flt x (Fin 0) then x else Fin 0) delta)))"

definition rsi_rs :: "real list \<Rightarrow> nat \<Rightarrow> series" where
  "rsi_rs prices period = series_op fdiv (rsi_gain prices period) (rsi_loss prices period)"

definition rsi_series :: "real list \<Rightarrow> nat \<Rightarrow> series" where
  "rsi_series prices period =
     map (\<lambda>rs. fsub (Fin 100) (fdiv (Fin 100) (fadd (Fin 1) rs))) (rsi_rs prices period)"

definition calculate_rsi :: "real list \<Rightarrow> nat \<Rightarrow> pyfloat" where
  "calculate_rsi prices period =
     (let rsi = rsi_series prices period
      in if rsi \<noteq> [] \<and> \<not> is_nan (last rsi) then last rsi else Fin 50.0)"

text \<open>
  The result dicts of \<open>calculate_macd\<close>, \<open>calculate_bollinger_bands\<close> and
  \<open>calculate_stochastic\<close> have fixed keys and are records.
\<close>

record macd_data =
  md_macd :: pyfloat
  md_signal :: pyfloat
  md_histogram :: pyfloat

record bb_data =
  bb_upper :: pyfloat
  bb_middle :: pyfloat
  bb_lower :: pyfloat

record stoch_data =
  st_k :: pyfloat
  st_d :: pyfloat

definition calculate_macd :: "real list \<Rightarrow> nat \<Rightarrow> nat \<Rightarrow> nat \<Rightarrow> macd_data" where
  "calculate_macd prices fast slow sgnl =
     (let exp1 = ewm_mean fast prices;
          exp2 = ewm_mean slow prices;
          macd = map2 (-) exp1 exp2;
          signal_line = ewm_mean sgnl macd;
          histogram = map2 (-) macd signal_line
      in \<lparr>md_macd = (if macd \<noteq> [] then Fin (last macd) else Fin 0.0),
          md_signal = (if signal_line \<noteq> [] then Fin (last signal_line) else Fin 0.0),
          md_histogram = (if histogram \<noteq> [] then Fin (last histogram) else Fin 0.0)\<rparr>)"

text \<open>
  \<open>calculate_ma\<close>: on an empty series the \<open>else\<close> branch \<open>float(prices.iloc[-1])\<close>
  raises IndexError and the \<open>except\<close> returns \<open>0.0\<close>. \<open>calculate_ema\<close> likewise.
\<close>

definition calculate_ma :: "real list \<Rightarrow> nat \<Rightarrow> pyfloat" where
  "calculate_ma prices period =
     (let ma = rolling agg_mean period (pd_Series prices)
      in if ma \<noteq> [] \<and> \<not> is_nan (last ma) then last ma
         else if prices \<noteq> [] then Fin (last prices)
         else Fin 0.0)"

definition calculate_ema :: "real list \<Rightarrow> nat \<Rightarrow> pyfloat" where
  "calculate_ema prices period =
     (let ema = ewm_mean period prices
      in if ema \<noteq> [] then Fin (last ema)
         else if prices \<noteq> [] then Fin (last prices)
         else Fin 0.0)"

text \<open>
  \<open>calculate_bollinger_bands\<close> does not test its results for NaN. On an empty series
  the \<open>else\<close> branches raise IndexError and the \<open>except\<close> builds the bands from
  \<open>current = 0.0\<close>.
\<close>

definition calculate_bollinger_bands :: "real list \<Rightarrow> nat \<Rightarrow> real \<Rightarrow> bb_data" where
  "calculate_bollinger_bands prices period std_dev =
     (let ps = pd_Series prices;
          middle = rolling agg_mean period ps;
          std = rolling agg_std period ps;
          upper = series_op fadd middle (map (\<lambda>x. fmul x (Fin std_dev)) std);
          lower = series_op fsub middle (map (\<lambda>x. fmul x (Fin std_dev)) std)
      in if upper \<noteq> [] \<and> middle \<noteq> [] \<and> lower \<noteq> []
         then \<lparr>bb_upper = last upper, bb_middle = last middle, bb_lower = last lower\<rparr>
         else
           let current = (if prices \<noteq> [] then last prices else 0.0)
           in \<lparr>bb_upper = Fin (current * 1.05), bb_middle = Fin current,
               bb_lower = Fin (current * 0.95)\<rparr>)"

definition stoch_k_series :: "real list \<Rightarrow> real list \<Rightarrow> real list \<Rightarrow> nat \<Rightarrow> series" where
  "stoch_k_series high low close k_period =
     (let lowest_low = rolling agg_min k_period (pd_Series low);
          highest_high = rolling agg_max k_period (pd_Series high)
      in map (fmul (Fin 100))
           (series_op fdiv (series_op fsub (pd_Series close) lowest_low)
                           (series_op fsub highest_high lowest_low)))"

definition calculate_stochastic ::
  "real list \<Rightarrow> real list \<Rightarrow> real list \<Rightarrow> nat \<Rightarrow> nat \<Rightarrow> stoch_data" where
  "calculate_stochastic high low close k_period d_period =
     (let k = stoch_k_series high low close k_period;
          d = rolling agg_mean d_period k
      in \<lparr>st_k = (if k \<noteq> [] \<and> \<not> is_nan (last k) then last k else Fin 50.0),
          st_d = (if d \<noteq> [] \<and> \<not> is_nan (last d) then last d else Fin 50.0)\<rparr>)"

text \<open>
  \<open>pd.concat([tr1, tr2, tr3], axis=1).max(axis=1)\<close>: the row-wise maximum, which skips
  NaN and is NaN only where all three are.
\<close>

fun nanmax :: "pyfloat \<Rightarrow> pyfloat \<Rightarrow> pyfloat" where
  "nanmax NaN b = b"
| "nanmax a NaN = a"
| "nanmax a b = (if flt a b then b else a)"

definition true_range :: "real list \<Rightarrow> real list \<Rightarrow> real list \<Rightarrow> series" where
  "true_range high low close =
     (let tr1 = series_op fsub (pd_Series high) (pd_Series low);
          tr2 = map fabs (series_op fsub (pd_Series high) (series_shift (pd_Series close)));
          tr3 = map fabs (series_op fsub (pd_Series low) (series_shift (pd_Series close)))
      in map (\<lambda>i. nanmax (nanmax (series_at tr1 i) (series_at tr2 i)) (series_at tr3 i))
           [0..<max (max (length tr1) (length tr2)) (length tr3)])"

definition calculate_atr :: "real list \<Rightarrow> real list \<Rightarrow> real list \<Rightarrow> nat \<Rightarrow> pyfloat" where
  "calculate_atr high low close period =
     (let tr = true_range high low close;
          atr = rolling agg_mean period tr
      in if atr \<noteq> [] \<and> \<not> is_nan (last atr) then last atr else Fin 0.0)"

text \<open>
  \<open>calculate_indicators\<close>. \<open>pd.DataFrame\<close> raises ValueError when the four lists
  differ in length; the \<open>except\<close> then returns a dict of four entries.
\<close>

definition calculate_indicators_fallback :: "stock_data \<Rightarrow> indicators" where
  "calculate_indicators_fallback sd =
     (let last_close = (if closes sd \<noteq> [] then Fin (last (closes sd)) else Fin 0)
      in [''rsi'' \<mapsto> Fin 50, ''macd'' \<mapsto> Fin 0, ''ma20'' \<mapsto> last_close, ''ma50'' \<mapsto> last_close])"

definition calculate_indicators :: "stock_data \<Rightarrow> indicators" where
  "calculate_indicators sd =
     (if \<not> (length (highs sd) = length (closes sd) \<and> length (lows sd) = length (closes sd)
            \<and> length (volumes sd) = length (closes sd))
      then calculate_indicators_fallback sd
      else
        let macd_data = calculate_macd (closes sd) 12 26 9;
            bb = calculate_bollinger_bands (closes sd) 20 2;
            stoch = calculate_stochastic (highs sd) (lows sd) (closes sd) 14 3
        in [''rsi'' \<mapsto> calculate_rsi (closes sd) 14,
            ''macd'' \<mapsto> md_macd macd_data,
            ''macd_signal'' \<mapsto> md_signal macd_data,
            ''macd_histogram'' \<mapsto> md_histogram macd_data,
            ''ma20'' \<mapsto> calculate_ma (closes sd) 20,
            ''ma50'' \<mapsto> calculate_ma (closes sd) 50,
            ''ma200'' \<mapsto> calculate_ma (closes sd) 200,
            ''ema12'' \<mapsto> calculate_ema (closes sd) 12,
            ''ema26'' \<mapsto> calculate_ema (closes sd) 26,
            ''bb_upper'' \<mapsto> bb_upper bb,
            ''bb_middle'' \<mapsto> bb_middle bb,
            ''bb_lower'' \<mapsto> bb_lower bb,
            ''stoch_k'' \<mapsto> st_k stoch,
            ''stoch_d'' \<mapsto> st_d stoch,
            ''atr'' \<mapsto> calculate_atr (highs sd) (lows sd) (closes sd) 14,
            ''volume_ma'' \<mapsto> calculate_ma (volumes sd) 20])"

section \<open>Facts about float comparison\<close>

lemma flt_irrefl: "\<not> flt x x"
  by (cases x) auto

lemma flt_asym: "flt x y \<Longrightarrow> \<not> flt y x"
  by (cases x; cases y) auto

section \<open>The classifiers\<close>

text \<open>
  C2. For every indicator set the signal is BUY iff the buy votes strictly exceed the
  sell votes, SELL iff the sell votes strictly exceed the buy votes, and HOLD otherwise
  (the counts are equal). The buy votes are one for \<open>rsi < 30\<close> plus one for
  \<open>macd > 0\<close>, the sell votes one for \<open>rsi > 70\<close> plus one for \<open>macd < 0\<close>.
  The last conjunct is the table of the nine combinations of the RSI bucket
  (\<open>< 30\<close>, \<open>[30, 70]\<close>, \<open>> 70\<close>) and the MACD sign.
\<close>

theorem determine_signal_vote_rule:
  "(determine_signal ind = BUY) = (buy_signals ind > sell_signals ind) \<and>
   (determine_signal ind = SELL) = (sell_signals ind > buy_signals ind) \<and>
   (determine_signal ind = HOLD) = (buy_signals ind = sell_signals ind) \<and>
   buy_signals ind =
     (if flt (dict_get ind ''rsi'' (Fin 50)) (Fin 30) then 1 else 0) +
     (if fgt (dict_get ind ''macd'' (Fin 0)) (Fin 0) then 1 else 0) \<and>
   sell_signals ind =
     (if fgt (dict_get ind ''rsi'' (Fin 50)) (Fin 70) then 1 else 0) +
     (if flt (dict_get ind ''macd'' (Fin 0)) (Fin 0) then 1 else 0) \<and>
   determine_signal (ind(''rsi'' \<mapsto> Fin r, ''macd'' \<mapsto> Fin m)) =
     (if r < 30 then (if m < 0 then HOLD else BUY)
      else if r > 70 then (if m > 0 then HOLD else SELL)
      else (if m > 0 then BUY else if m < 0 then SELL else HOLD))"
proof -
  have a: "\<not> (flt x (Fin 30) \<and> fgt x (Fin 70))" for x
    by (cases x) (auto simp: fgt_def)
  have b: "\<not> (flt x (Fin 0) \<and> fgt x (Fin 0))" for x
    by (cases x) (auto simp: fgt_def)
  have votes: "(determine_signal ind = BUY) = (buy_signals ind > sell_signals ind) \<and>
   (determine_signal ind = SELL) = (sell_signals ind > buy_signals ind) \<and>
   (determine_signal ind = HOLD) = (buy_signals ind = sell_signals ind)"
    by (auto simp: determine_signal_def)
  have bs: "buy_signals ind =
     (if flt (dict_get ind ''rsi'' (Fin 50)) (Fin 30) then 1 else 0) +
     (if fgt (dict_get ind ''macd'' (Fin 0)) (Fin 0) then 1 else 0)"
    by (simp add: buy_signals_def Let_def)
  have ss: "sell_signals ind =
     (if fgt (dict_get ind ''rsi'' (Fin 50)) (Fin 70) then 1 else 0) +
     (if flt (dict_get ind ''macd'' (Fin 0)) (Fin 0) then 1 else 0)"
    using a[of "dict_get ind ''rsi'' (Fin 50)"] b[of "dict_get ind ''macd'' (Fin 0)"]
    by (simp add: sell_signals_def Let_def)
  have tab: "determine_signal (ind(''rsi'' \<mapsto> Fin r, ''macd'' \<mapsto> Fin m)) =
     (if r < 30 then (if m < 0 then HOLD else BUY)
      else if r > 70 then (if m > 0 then HOLD else SELL)
      else (if m > 0 then BUY else if m < 0 then SELL else HOLD))"
    by (simp add: determine_signal_def buy_signals_def sell_signals_def dict_get_def fgt_def)
  from votes bs ss tab show ?thesis by blast
qed

text \<open>
  C5. The risk rule is evaluated in order, the first match winning: \<open>rsi > 70\<close> or
  \<open>rsi < 30\<close> gives High, else \<open>rsi > 60\<close> or \<open>rsi < 40\<close> gives Medium, else
  Low. The level is monotonic in the distance of the RSI from 50, and 29 and 71 are
  High, 30, 39, 61, 69 and 70 are Medium, 40 and 60 are Low.
\<close>

theorem determine_risk_level_rule:
  "determine_risk_level (ind(''rsi'' \<mapsto> Fin r)) =
     (if r > 70 \<or> r < 30 then High else if r > 60 \<or> r < 40 then Medium else Low) \<and>
   (\<bar>r1 - 50\<bar> \<le> \<bar>r2 - 50\<bar> \<longrightarrow>
      risk_rank (determine_risk_level (ind1(''rsi'' \<mapsto> Fin r1)))
        \<le> risk_rank (determine_risk_level (ind2(''rsi'' \<mapsto> Fin r2)))) \<and>
   determine_risk_level (ind(''rsi'' \<mapsto> Fin 29)) = High \<and>
   determine_risk_level (ind(''rsi'' \<mapsto> Fin 71)) = High \<and>
   determine_risk_level (ind(''rsi'' \<mapsto> Fin 30)) = Medium \<and>
   determine_risk_level (ind(''rsi'' \<mapsto> Fin 39)) = Medium \<and>
   determine_risk_level (ind(''rsi'' \<mapsto> Fin 61)) = Medium \<and>
   determine_risk_level (ind(''rsi'' \<mapsto> Fin 69)) = Medium \<and>
   determine_risk_level (ind(''rsi'' \<mapsto> Fin 70)) = Medium \<and>
   determine_risk_level (ind(''rsi'' \<mapsto> Fin 40)) = Low \<and>
   determine_risk_level (ind(''rsi'' \<mapsto> Fin 60)) = Low"
proof -
  have rule: "determine_risk_level (m(''rsi'' \<mapsto> Fin x)) =
     (if x > 70 \<or> x < 30 then High else if x > 60 \<or> x < 40 then Medium else Low)" for m x
    by (simp add: determine_risk_level_def dict_get_def fgt_def)
  have mono: "\<bar>r1 - 50\<bar> \<le> \<bar>r2 - 50\<bar> \<longrightarrow>
      risk_rank (determine_risk_level (ind1(''rsi'' \<mapsto> Fin r1)))
        \<le> risk_rank (determine_risk_level (ind2(''rsi'' \<mapsto> Fin r2)))"
    unfolding rule by (auto simp: abs_if split: if_splits)
  show ?thesis
    using mono by (simp add: rule)
qed

text \<open>The monotonicity at the RSI values 55 and 28.\<close>

theorem determine_risk_level_rule_witness:
  "\<bar>(55::real) - 50\<bar> \<le> \<bar>(28::real) - 50\<bar> \<and>
   risk_rank (determine_risk_level [''rsi'' \<mapsto> Fin 55])
     \<le> risk_rank (determine_risk_level [''rsi'' \<mapsto> Fin 28]) \<and>
   determine_risk_level [''rsi'' \<mapsto> Fin 55] = Low \<and>
   determine_risk_level [''rsi'' \<mapsto> Fin 28] = High"
  using determine_risk_level_rule [of Map.empty 55 55 28 Map.empty Map.empty]
        determine_risk_level_rule [of Map.empty 28]
  by simp

text \<open>
  C7. For every indicator set and every timeframe the trend is Bullish when
  \<open>ma20 > ma50\<close>, Bearish when \<open>ma20 < ma50\<close> and Neutral when they are equal; the
  labels of the short, medium and long timeframes are those of any timeframe, hence
  identical to one another.
\<close>

theorem determine_trend_rule:
  "(determine_trend ind timeframe = Bullish)
      = fgt (dict_get ind ''ma20'' (Fin 0)) (dict_get ind ''ma50'' (Fin 0)) \<and>
   (determine_trend ind timeframe = Bearish)
      = flt (dict_get ind ''ma20'' (Fin 0)) (dict_get ind ''ma50'' (Fin 0)) \<and>
   determine_trend (ind(''ma20'' \<mapsto> x, ''ma50'' \<mapsto> x)) timeframe = Neutral \<and>
   determine_trend (ind(''ma20'' \<mapsto> Fin a, ''ma50'' \<mapsto> Fin b)) timeframe =
     (if a > b then Bullish else if a < b then Bearish else Neutral) \<and>
   determine_trend ind ''short'' = determine_trend ind timeframe \<and>
   determine_trend ind ''medium'' = determine_trend ind timeframe \<and>
   determine_trend ind ''long'' = determine_trend ind timeframe"
  using flt_asym[of "dict_get ind ''ma20'' (Fin 0)" "dict_get ind ''ma50'' (Fin 0)"]
  by (auto simp: determine_trend_def Let_def fgt_def dict_get_def flt_irrefl)

section \<open>Confidence\<close>

lemma confidence_before_clip_Fin:
  "confidence_before_clip (Fin x) n =
     Fin (70 - min (x * 2) 30 - (if n < 30 then real_of_int (30 - n) else 0))"
  by (simp add: confidence_before_clip_def Let_def fsub_def py_min_def min_def)

lemma confidence_before_clip_PInf:
  "confidence_before_clip PInf n = Fin (40 - (if n < 30 then real_of_int (30 - n) else 0))"
  by (simp add: confidence_before_clip_def Let_def fsub_def py_min_def)

lemma confidence_before_clip_NInf: "confidence_before_clip NInf n = PInf"
  by (simp add: confidence_before_clip_def Let_def fsub_def py_min_def)

lemma np_clip_Fin: "np_clip (Fin c) lo hi = Fin (if c < lo then lo else if hi < c then hi else c)"
  by (simp add: np_clip_def fgt_def)

lemma calculate_confidence_Fin:
  "calculate_confidence (Fin x) n =
     Fin (min 100 (max 0 (70 - min (x * 2) 30 - (if n < 30 then real_of_int (30 - n) else 0))))"
  by (simp add: calculate_confidence_def confidence_before_clip_Fin np_clip_Fin min_def max_def)

lemma calculate_confidence_not_nan_range:
  assumes "\<not> is_nan v"
  shows "\<exists>c. calculate_confidence v n = Fin c \<and> 0 \<le> c \<and> c \<le> 100"
proof (cases v)
  case (Fin y)
  show ?thesis unfolding Fin calculate_confidence_Fin by (simp add: min_def max_def)
next
  case PInf
  show ?thesis unfolding PInf
    by (simp add: calculate_confidence_def confidence_before_clip_PInf np_clip_Fin)
next
  case NInf
  show ?thesis unfolding NInf
    by (simp add: calculate_confidence_def confidence_before_clip_NInf np_clip_def fgt_def)
next
  case NaN
  with assms show ?thesis by simp
qed

text \<open>
  C10. For every non-negative volatility and every sample count of at least 1 the
  confidence lies in \<open>[11, 70]\<close>, and it is the value before the clamp: the clamp
  changes nothing.
\<close>

theorem calculate_confidence_nonempty_range:
  assumes "\<not> is_nan v" and "\<not> flt v (Fin 0)" and "1 \<le> n"
  shows "\<exists>c. calculate_confidence v n = Fin c \<and> 11 \<le> c \<and> c \<le> 70 \<and>
             confidence_before_clip v n = Fin c"
proof (cases v)
  case (Fin x)
  with assms have "0 \<le> x" by simp
  then show ?thesis using assms(3) unfolding Fin
    by (simp add: calculate_confidence_def confidence_before_clip_Fin np_clip_Fin min_def)
next
  case PInf
  show ?thesis using assms(3) unfolding PInf
    by (simp add: calculate_confidence_def confidence_before_clip_PInf np_clip_Fin)
next
  case NInf
  with assms show ?thesis by simp
next
  case NaN
  with assms show ?thesis by simp
qed

text \<open>C10 at volatility 20 and one sample, where the lower bound 11 is met.\<close>

theorem calculate_confidence_nonempty_range_witness:
  "\<not> is_nan (Fin 20) \<and> \<not> flt (Fin 20) (Fin 0) \<and> (1::int) \<le> 1 \<and>
   calculate_confidence (Fin 20) 1 = Fin 11 \<and> confidence_before_clip (Fin 20) 1 = Fin 11"
  using calculate_confidence_nonempty_range [of "Fin 20" 1]
  by (simp add: confidence_before_clip_Fin)

section \<open>The horizon prediction\<close>

lemma predict_next_period_Fin:
  "predict_next_period (Fin cp) (Fin ts) (Fin v) hours u =
     Inr (Fin (cp * (1 + ts * 0.001 * real_of_int hours)
                * (1 + (- v / 100 + (v / 100 - (- v / 100)) * u))))"
  by (simp add: predict_next_period_def np_random_uniform_def fsub_def Let_def)

text \<open>
  C8, as stated, fails: with current price 100, trend strength 1, volatility 10 and 168
  hours the trend factor is 1.168; the draw 0.95 gives the perturbation 0.09, inside
  \<open>[-0.1, 0.1]\<close>, and the prediction 127.312, above the claimed upper bound
  \<open>100 * (1 + (0.168 + 0.1)) = 126.8\<close>.
\<close>

theorem predict_next_period_counterexample:
  "predict_next_period (Fin 100) (Fin 1) (Fin 10) 168 (95 / 100) = Inr (Fin (127312 / 1000)) \<and>
   \<not> (127312 / 1000 \<le> (100::real) * (1 + (\<bar>(1 + 1 * 0.001 * 168) - 1\<bar> + 10 / 100)))"
  by (simp add: predict_next_period_Fin)

lemma cross_bound:
  fixes t rf w :: real
  assumes "\<bar>rf\<bar> \<le> w"
  shows "\<bar>t + rf + t * rf\<bar> \<le> \<bar>t\<bar> + w + \<bar>t\<bar> * w"
proof -
  have "\<bar>t + rf + t * rf\<bar> \<le> \<bar>t + rf\<bar> + \<bar>t * rf\<bar>" by (rule abs_triangle_ineq)
  also have "\<dots> \<le> \<bar>t\<bar> + \<bar>rf\<bar> + \<bar>t\<bar> * \<bar>rf\<bar>"
    using abs_triangle_ineq[of t rf] by (simp add: abs_mult)
  also have "\<dots> \<le> \<bar>t\<bar> + w + \<bar>t\<bar> * w"
  proof -
    have "\<bar>t\<bar> * \<bar>rf\<bar> \<le> \<bar>t\<bar> * w" using assms by (intro mult_left_mono) auto
    with assms show ?thesis by linarith
  qed
  finally show ?thesis .
qed


text \<open>
  C8, amended. For every current price, trend strength, non-negative volatility and
  number of hours, and every draw of the unit interval, the perturbation lies in
  \<open>[-volatility/100, volatility/100]\<close> and the prediction
  \<open>current_price * trend_factor * (1 + perturbation)\<close> differs from the current price
  by at most \<open>|current_price|\<close> times
  \<open>|trend_factor - 1| + volatility/100 + |trend_factor - 1| * volatility/100\<close>.
\<close>

theorem predict_next_period_bound:
  assumes "0 \<le> v" and "0 \<le> u" and "u \<le> 1"
  shows "\<exists>p rf. predict_next_period (Fin cp) (Fin ts) (Fin v) hours u = Inr (Fin p) \<and>
           - v / 100 \<le> rf \<and> rf \<le> v / 100 \<and>
           p = cp * (1 + ts * 0.001 * real_of_int hours) * (1 + rf) \<and>
           \<bar>p - cp\<bar> \<le> \<bar>cp\<bar> * (\<bar>(1 + ts * 0.001 * real_of_int hours) - 1\<bar> + v / 100
                                 + \<bar>(1 + ts * 0.001 * real_of_int hours) - 1\<bar> * (v / 100))"
proof -
  define tf where "tf = 1 + ts * 0.001 * real_of_int hours"
  define rf where "rf = - v / 100 + (v / 100 - (- v / 100)) * u"
  define p where "p = cp * tf * (1 + rf)"
  have rf_eq: "rf = (v / 100) * (2 * u - 1)"
    by (simp add: rf_def algebra_simps)
  have "\<bar>2 * u - 1\<bar> \<le> 1" using assms by (simp add: abs_le_iff)
  then have "(v / 100) * \<bar>2 * u - 1\<bar> \<le> (v / 100) * 1"
    using assms(1) by (intro mult_left_mono) auto
  then have rf_abs: "\<bar>rf\<bar> \<le> v / 100"
    unfolding rf_eq abs_mult using assms(1) by simp
  then have rf_lo: "- v / 100 \<le> rf" and rf_hi: "rf \<le> v / 100"
    by (simp_all add: abs_le_iff)
  have "p - cp = cp * ((tf - 1) + rf + (tf - 1) * rf)"
    by (simp add: p_def algebra_simps)
  then have "\<bar>p - cp\<bar> = \<bar>cp\<bar> * \<bar>(tf - 1) + rf + (tf - 1) * rf\<bar>"
    by (simp only: abs_mult)
  also have "\<dots> \<le> \<bar>cp\<bar> * (\<bar>tf - 1\<bar> + v / 100 + \<bar>tf - 1\<bar> * (v / 100))"
    using cross_bound[OF rf_abs, of "tf - 1"] by (intro mult_left_mono) auto
  finally have bound: "\<bar>p - cp\<bar> \<le> \<bar>cp\<bar> * (\<bar>tf - 1\<bar> + v / 100 + \<bar>tf - 1\<bar> * (v / 100))" .
  have run: "predict_next_period (Fin cp) (Fin ts) (Fin v) hours u = Inr (Fin p)"
    unfolding predict_next_period_Fin p_def tf_def rf_def ..
  have "predict_next_period (Fin cp) (Fin ts) (Fin v) hours u = Inr (Fin p) \<and>
           - v / 100 \<le> rf \<and> rf \<le> v / 100 \<and> p = cp * tf * (1 + rf) \<and>
           \<bar>p - cp\<bar> \<le> \<bar>cp\<bar> * (\<bar>tf - 1\<bar> + v / 100 + \<bar>tf - 1\<bar> * (v / 100))"
    using run rf_lo rf_hi bound p_def by blast
  then show ?thesis unfolding tf_def by blast
qed

text \<open>The amended bound at the input of the counterexample.\<close>

theorem predict_next_period_bound_witness:
  "(0::real) \<le> 10 \<and> (0::real) \<le> 95 / 100 \<and> (95 / 100 ::real) \<le> 1 \<and>
   predict_next_period (Fin 100) (Fin 1) (Fin 10) 168 (95 / 100) = Inr (Fin (127312 / 1000)) \<and>
   \<bar>127312 / 1000 - (100::real)\<bar>
     \<le> \<bar>100\<bar> * (\<bar>(1 + 1 * 0.001 * 168) - 1\<bar> + 10 / 100 + \<bar>(1 + 1 * 0.001 * 168) - 1\<bar> * (10 / 100))"
  using predict_next_period_bound [of 10 "95 / 100" 100 1 168]
  by (simp add: predict_next_period_Fin)

section \<open>Linear regression\<close>

lemma those_map_fin_opt_Fin: "those (map fin_opt (map Fin rs)) = Some rs"
  by (induction rs) auto

lemma those_fin_opt_Some: "those (map fin_opt xs) = Some rs \<Longrightarrow> xs = map Fin rs"
proof (induction xs arbitrary: rs)
  case Nil
  then show ?case by simp
next
  case (Cons x xs)
  then show ?case by (cases x) (auto split: option.splits)
qed

lemma sum_list_affine:
  fixes a b :: real
  shows "sum_list (map (\<lambda>x. a + b * x) xs) = a * real (length xs) + b * sum_list xs"
  by (induction xs) (auto simp: algebra_simps)

lemma mean_affine:
  "xs \<noteq> [] \<Longrightarrow> mean (map (\<lambda>x. a + b * x) xs) = a + b * mean xs"
  by (simp add: mean_def sum_list_affine add_divide_distrib)

lemma ols_fit_affine:
  assumes "sum_list (map (\<lambda>x. (x - mean xs)\<^sup>2) xs) \<noteq> 0"
  shows "ols_fit xs (map (\<lambda>x. a + b * x) xs) = (b, a)"
proof -
  have ne: "xs \<noteq> []" using assms by auto
  have z: "zip xs (map (\<lambda>x. a + b * x) xs) = map (\<lambda>x. (x, a + b * x)) xs"
    by (induction xs) auto
  have sxy: "sum_list (map (\<lambda>(x, y). (x - mean xs) * (y - (a + b * mean xs)))
                 (zip xs (map (\<lambda>x. a + b * x) xs)))
             = b * sum_list (map (\<lambda>x. (x - mean xs)\<^sup>2) xs)"
    unfolding z by (simp add: o_def sum_list_const_mult[symmetric] power2_eq_square algebra_simps)
  show ?thesis
    using assms by (simp add: ols_fit_def Let_def mean_affine[OF ne] sxy)
qed

lemma sxx_positions_nonzero:
  fixes c :: real
  assumes "2 \<le> n"
  shows "sum_list (map (\<lambda>x. (x - c)\<^sup>2) (map real [0..<n])) \<noteq> 0"
proof
  assume "sum_list (map (\<lambda>x. (x - c)\<^sup>2) (map real [0..<n])) = 0"
  then have "\<forall>x \<in> set (map (\<lambda>x. (x - c)\<^sup>2) (map real [0..<n])). x = 0"
    by (subst (asm) sum_list_nonneg_eq_0_iff) auto
  then have all: "\<And>i. i < n \<Longrightarrow> (real i - c)\<^sup>2 = 0" by auto
  have "(real 0 - c)\<^sup>2 = 0" using all[of 0] assms by simp
  then have c0: "c = 0" by simp
  have "(real 1 - c)\<^sup>2 = 0" using all[of 1] assms by simp
  then have c1: "c = 1" by simp
  from c0 c1 show False by simp
qed

lemma linear_regression_predict_affine:
  assumes "2 \<le> n" and "n \<le> 30"
  shows "linear_regression_predict (map (\<lambda>i. a + b * real i) [0..<n]) k
           = Fin (a + b * real (n + k))"
proof -
  have d: "last_n 30 (map (\<lambda>i. a + b * real i) [0..<n]) = map (\<lambda>x. a + b * x) (map real [0..<n])"
    using assms by (simp add: last_n_def o_def)
  have ne: "map (\<lambda>x. a + b * x) (map real [0..<n]) \<noteq> []" using assms by auto
  have fit: "ols_fit (map real [0..<n]) (map (\<lambda>x. a + b * x) (map real [0..<n])) = (b, a)"
    by (rule ols_fit_affine) (rule sxx_positions_nonzero[OF assms(1)])
  show ?thesis
    unfolding linear_regression_predict_def d Let_def using ne assms
    by (simp add: fit del: map_map)
qed


lemma simple_returns_finite:
  assumes "\<forall>x \<in> set ps. x \<noteq> 0"
  shows "simple_returns ps =
           map Fin (map (\<lambda>i. (ps ! (i + 1) - ps ! i) / ps ! i) [0..<length ps - 1])"
proof -
  have "fdiv (Fin (ps ! (i + 1) - ps ! i)) (Fin (ps ! i))
          = Fin ((ps ! (i + 1) - ps ! i) / ps ! i)" if "i < length ps - 1" for i
  proof -
    have "ps ! i \<in> set ps" using that by simp
    then have "ps ! i \<noteq> 0" using assms by blast
    then show ?thesis by simp
  qed
  then show ?thesis by (simp add: simple_returns_def)
qed

lemma np_std_finite: "rs \<noteq> [] \<Longrightarrow> \<exists>r. np_std (map Fin rs) = Fin r"
  unfolding np_std_def those_map_fin_opt_Fin by simp

lemma calculate_volatility_finite:
  assumes "\<forall>x \<in> set ps. x \<noteq> 0" and "2 \<le> length ps" and "2 \<le> period"
  shows "\<exists>r. calculate_volatility ps period = Fin r"
proof -
  define qs where "qs = last_n period ps"
  have len: "2 \<le> length qs" using assms(2,3) by (auto simp: qs_def last_n_def)
  have "set qs \<subseteq> set ps" by (auto simp: qs_def last_n_def dest: in_set_dropD)
  then have nz: "\<forall>x \<in> set qs. x \<noteq> 0" using assms(1) by blast
  have "map (\<lambda>i. (qs ! (i + 1) - qs ! i) / qs ! i) [0..<length qs - 1] \<noteq> []"
    using len by simp
  then obtain r where "np_std (simple_returns qs) = Fin r"
    unfolding simple_returns_finite[OF nz] using np_std_finite by blast
  then show ?thesis
    by (simp add: calculate_volatility_def qs_def)
qed

lemma calculate_trend_strength_finite:
  "\<exists>r. calculate_trend_strength ps ma20 ma50 rsi macd = Fin r"
  by (simp add: calculate_trend_strength_def Let_def np_clip_Fin)

lemma predict_price_ml_prediction:
  assumes "\<forall>x \<in> set (closes sd). x \<noteq> 0" and "2 \<le> length (closes sd)"
  shows "predict_price sd ind rng ''ml_prediction''
           = Some (linear_regression_predict (closes sd) 5)"
proof -
  have ne: "closes sd \<noteq> []" using assms(2) by auto
  obtain v where v: "calculate_volatility (closes sd) 20 = Fin v"
    using calculate_volatility_finite[OF assms, of 20] by auto
  obtain t where t: "calculate_trend_strength (closes sd)
       (dict_get ind ''ma20'' (Fin (last (closes sd))))
       (dict_get ind ''ma50'' (Fin (last (closes sd))))
       (dict_get ind ''rsi'' (Fin 50)) (dict_get ind ''macd'' (Fin 0)) = Fin t"
    using calculate_trend_strength_finite by blast
  show ?thesis
    using ne by (simp add: predict_price_def Let_def v t predict_next_period_Fin)
qed

text \<open>
  C1, as stated, fails: on the 30 closes \<open>100, 101, ..., 129\<close> the fitted line is
  \<open>100 + x\<close>, and the code evaluates it at \<open>len(data) + periods_ahead = 35\<close>, which
  gives 135, not 134.
\<close>

theorem linear_regression_predict_counterexample:
  "linear_regression_predict (map (\<lambda>i. 100 + real i) [0..<30]) 5 = Fin 135 \<and>
   linear_regression_predict (map (\<lambda>i. 100 + real i) [0..<30]) 5 \<noteq> Fin 134"
  using linear_regression_predict_affine [of 30 100 1 5] by simp

text \<open>
  C1, amended. On the closes \<open>close[i] = 100 + i\<close>, \<open>i = 0, ..., 29\<close>, the
  linear-regression component returns 135, and so does the \<open>ml_prediction\<close> entry of
  \<open>predict_price\<close> for every state of the random generator, every indicator set and
  any other columns of the series.
\<close>

theorem linear_regression_predict_linear:
  "linear_regression_predict (map (\<lambda>i. 100 + real i) [0..<30]) 5 = Fin 135 \<and>
   predict_price \<lparr>closes = map (\<lambda>i. 100 + real i) [0..<30], highs = hs, lows = ls,
                   volumes = vs\<rparr> ind rng ''ml_prediction'' = Some (Fin 135)"
proof -
  have lr: "linear_regression_predict (map (\<lambda>i. 100 + real i) [0..<30]) 5 = Fin 135"
    using linear_regression_predict_affine [of 30 100 1 5] by simp
  have nz: "\<forall>x \<in> set (map (\<lambda>i. 100 + real i) [0..<30]). x \<noteq> 0"
    by auto
  show ?thesis
    using predict_price_ml_prediction [of "\<lparr>closes = map (\<lambda>i. 100 + real i) [0..<30],
        highs = hs, lows = ls, volumes = vs\<rparr>" ind rng] nz lr
    by simp
qed

section \<open>The confidence of the forecast\<close>

lemma np_random_uniform_nonfinite:
  assumes "\<not> is_finite v"
  shows "np_random_uniform (fdiv (fneg v) (Fin 100)) (fdiv v (Fin 100)) u = Inl OverflowError"
  using assms by (cases v) (simp_all add: np_random_uniform_def fsub_def)

lemma predict_next_period_nonfinite:
  assumes "\<not> is_finite v"
  shows "predict_next_period cp ts v hours u = Inl OverflowError"
  by (simp add: predict_next_period_def Let_def np_random_uniform_nonfinite[OF assms])

lemma predict_price_fallback_confidence:
  "predict_price_fallback sd ''confidence'' = Some (Fin 50)"
  by (simp add: predict_price_fallback_def Let_def)

lemma predict_price_confidence:
  "predict_price sd ind rng ''confidence'' = Some (Fin 50) \<or>
   (\<exists>x. calculate_volatility (closes sd) 20 = Fin x \<and>
        predict_price sd ind rng ''confidence''
          = Some (calculate_confidence (Fin x) (int (length (closes sd)))))"
proof (cases "closes sd = []")
  case True
  then show ?thesis by (simp add: predict_price_def predict_price_fallback_confidence)
next
  case False
  obtain t where t: "calculate_trend_strength (closes sd)
       (dict_get ind ''ma20'' (Fin (last (closes sd))))
       (dict_get ind ''ma50'' (Fin (last (closes sd))))
       (dict_get ind ''rsi'' (Fin 50)) (dict_get ind ''macd'' (Fin 0)) = Fin t"
    using calculate_trend_strength_finite by blast
  show ?thesis
  proof (cases "calculate_volatility (closes sd) 20")
    case (Fin x)
    then show ?thesis
      using False by (simp add: predict_price_def Let_def t predict_next_period_Fin)
  next
    case PInf
    then have "\<not> is_finite (calculate_volatility (closes sd) 20)" by simp
    then show ?thesis
      using False
      by (simp add: predict_price_def Let_def predict_next_period_nonfinite
          predict_price_fallback_confidence)
  next
    case NInf
    then have "\<not> is_finite (calculate_volatility (closes sd) 20)" by simp
    then show ?thesis
      using False
      by (simp add: predict_price_def Let_def predict_next_period_nonfinite
          predict_price_fallback_confidence)
  next
    case NaN
    then have "\<not> is_finite (calculate_volatility (closes sd) 20)" by simp
    then show ?thesis
      using False
      by (simp add: predict_price_def Let_def predict_next_period_nonfinite
          predict_price_fallback_confidence)
  qed
qed

lemma single_close_volatility: "calculate_volatility [c] 20 = NaN"
  by (simp add: calculate_volatility_def last_n_def simple_returns_def np_std_def)

text \<open>
  C6. The confidence is 70 minus \<open>min(volatility * 2, 30)\<close>, minus
  \<open>30 - sample_count\<close> when \<open>sample_count < 30\<close>, clamped to \<open>[0, 100]\<close>, for
  every finite volatility and every sample count, and it lies in \<open>[0, 100]\<close>; with
  volatility 0 and at least 30 samples it is 70. \<open>predict_price\<close>, the only caller,
  passes a finite volatility or does not reach \<open>calculate_confidence\<close> at all: the
  horizon predictions are computed first, and on a volatility that is not finite the draw
  raises, which makes the confidence the fallback 50. So the confidence of every forecast
  lies in \<open>[0, 100]\<close>.
\<close>

theorem calculate_confidence_formula:
  "calculate_confidence (Fin x) n =
     Fin (min 100 (max 0 (70 - min (x * 2) 30 - (if n < 30 then real_of_int (30 - n) else 0)))) \<and>
   (\<exists>c. calculate_confidence (Fin x) n = Fin c \<and> 0 \<le> c \<and> c \<le> 100) \<and>
   (\<not> is_nan v \<longrightarrow> (\<exists>c. calculate_confidence v n = Fin c \<and> 0 \<le> c \<and> c \<le> 100)) \<and>
   (30 \<le> n \<longrightarrow> calculate_confidence (Fin 0) n = Fin 70) \<and>
   (predict_price sd ind rng ''confidence'' = Some (Fin 50) \<or>
    (\<exists>y. calculate_volatility (closes sd) 20 = Fin y \<and>
         predict_price sd ind rng ''confidence''
           = Some (calculate_confidence (Fin y) (int (length (closes sd)))))) \<and>
   (\<exists>c. predict_price sd ind rng ''confidence'' = Some (Fin c) \<and> 0 \<le> c \<and> c \<le> 100)"
proof -
  have f: "calculate_confidence (Fin x) n =
     Fin (min 100 (max 0 (70 - min (x * 2) 30 - (if n < 30 then real_of_int (30 - n) else 0))))"
    by (rule calculate_confidence_Fin)
  have fr: "\<exists>c. calculate_confidence (Fin x) n = Fin c \<and> 0 \<le> c \<and> c \<le> 100"
    by (rule calculate_confidence_not_nan_range) simp
  have r: "\<not> is_nan v \<longrightarrow> (\<exists>c. calculate_confidence v n = Fin c \<and> 0 \<le> c \<and> c \<le> 100)"
    using calculate_confidence_not_nan_range by blast
  have z: "30 \<le> n \<longrightarrow> calculate_confidence (Fin 0) n = Fin 70"
    by (simp add: calculate_confidence_Fin)
  have p: "predict_price sd ind rng ''confidence'' = Some (Fin 50) \<or>
    (\<exists>y. calculate_volatility (closes sd) 20 = Fin y \<and>
         predict_price sd ind rng ''confidence''
           = Some (calculate_confidence (Fin y) (int (length (closes sd)))))"
    by (rule predict_price_confidence)
  have pr: "\<exists>c. predict_price sd ind rng ''confidence'' = Some (Fin c) \<and> 0 \<le> c \<and> c \<le> 100"
  proof -
    from p show ?thesis
    proof
      assume "predict_price sd ind rng ''confidence'' = Some (Fin 50)"
      then show ?thesis by simp
    next
      assume "\<exists>y. calculate_volatility (closes sd) 20 = Fin y \<and>
         predict_price sd ind rng ''confidence''
           = Some (calculate_confidence (Fin y) (int (length (closes sd))))"
      then obtain y where y: "predict_price sd ind rng ''confidence''
           = Some (calculate_confidence (Fin y) (int (length (closes sd))))" by blast
      obtain c where "calculate_confidence (Fin y) (int (length (closes sd))) = Fin c"
          "0 \<le> c" "c \<le> 100"
        using calculate_confidence_not_nan_range[of "Fin y"] by auto
      then show ?thesis using y by simp
    qed
  qed
  from f fr r z p pr show ?thesis by blast
qed

text \<open>
  C6 at an infinite volatility with 45 samples, at volatility 0 with 45 and 5 with 12,
  and on a single close, where the volatility is NaN and the confidence the fallback.
\<close>

theorem calculate_confidence_formula_witness:
  "\<not> is_nan PInf \<and> (30::int) \<le> 45 \<and> calculate_confidence PInf 45 = Fin 40 \<and>
   calculate_confidence (Fin 0) 45 = Fin 70 \<and> calculate_confidence (Fin 5) 12 = Fin 42 \<and>
   predict_price \<lparr>closes = [100], highs = [100], lows = [100], volumes = [1000]\<rparr>
     Map.empty (\<lambda>_. 0) ''confidence'' = Some (Fin 50)"
proof -
  have a: "calculate_confidence PInf 45 = Fin 40"
    by (simp add: calculate_confidence_def confidence_before_clip_PInf np_clip_Fin)
  have b: "predict_price \<lparr>closes = [100], highs = [100], lows = [100], volumes = [1000]\<rparr>
     Map.empty (\<lambda>_. 0) ''confidence'' = Some (Fin 50)"
    using predict_price_confidence[of "\<lparr>closes = [100], highs = [100], lows = [100],
      volumes = [1000]\<rparr>" Map.empty "\<lambda>_. 0"]
    by (simp add: single_close_volatility)
  show ?thesis
    using a b calculate_confidence_formula [of 0 45 PInf] calculate_confidence_formula [of 5 12 PInf]
    by simp
qed

section \<open>Facts about series and rolling windows\<close>

lemma length_pd_Series: "length (pd_Series xs) = length xs"
  by (simp add: pd_Series_def)

lemma length_rolling: "length (rolling agg w s) = length s"
  by (simp add: rolling_def)

lemma length_series_diff: "length (series_diff s) = length s"
  by (simp add: series_diff_def)

lemma length_series_shift: "length (series_shift s) = length s"
  by (simp add: series_shift_def)

lemma length_series_op: "length (series_op f a b) = max (length a) (length b)"
  by (simp add: series_op_def)

lemma series_op_nth:
  "i < length a \<Longrightarrow> length b = length a \<Longrightarrow> series_op f a b ! i = f (a ! i) (b ! i)"
  by (simp add: series_op_def series_at_def)

lemma last_map_upt: "0 < n \<Longrightarrow> last (map f [0..<n]) = f (n - 1)"
  by (simp add: last_conv_nth)

lemma rolling_nth:
  "i < length s \<Longrightarrow>
   rolling agg w s ! i =
     (if w = 0 \<or> i + 1 < w then NaN
      else case window_values w s i of None \<Rightarrow> NaN | Some rs \<Rightarrow> agg rs)"
  by (simp add: rolling_def)

lemma window_values_Fin:
  "window_values w (map Fin rs) i = Some (take w (drop (i + 1 - w) rs))"
proof -
  have "take w (drop (i + 1 - w) (map Fin rs)) = map Fin (take w (drop (i + 1 - w) rs))"
    by (simp add: take_map drop_map)
  then show ?thesis
    unfolding window_values_def by (simp only: those_map_fin_opt_Fin)
qed

lemma rolling_Fin_nth:
  assumes "i < length rs" and "0 < w" and "w \<le> i + 1"
  shows "rolling agg w (map Fin rs) ! i = agg (take w (drop (i + 1 - w) rs))"
  using assms by (simp add: rolling_nth window_values_Fin)

lemma rolling_short_nth:
  assumes "i < length s" and "i + 1 < w"
  shows "rolling agg w s ! i = NaN"
  using assms by (simp add: rolling_nth)

lemma rolling_Fin_last:
  assumes "0 < w" and "w \<le> length rs"
  shows "last (rolling agg w (map Fin rs)) = agg (last_n w rs)"
proof -
  have ne: "rolling agg w (map Fin rs) \<noteq> []"
    using assms by (auto simp: rolling_def)
  have "last (rolling agg w (map Fin rs)) = rolling agg w (map Fin rs) ! (length rs - 1)"
    using ne by (simp add: last_conv_nth length_rolling)
  also have "\<dots> = agg (take w (drop (length rs - 1 + 1 - w) rs))"
    using assms by (intro rolling_Fin_nth) auto
  also have "take w (drop (length rs - 1 + 1 - w) rs) = last_n w rs"
    using assms by (simp add: last_n_def)
  finally show ?thesis .
qed

lemma rolling_short_last:
  assumes "s \<noteq> []" and "length s < w"
  shows "last (rolling agg w s) = NaN"
proof -
  have "rolling agg w s \<noteq> []" using assms by (auto simp: rolling_def)
  then have "last (rolling agg w s) = rolling agg w s ! (length s - 1)"
    by (simp add: last_conv_nth length_rolling)
  also have "\<dots> = NaN" using assms by (intro rolling_short_nth) auto
  finally show ?thesis .
qed

lemma rolling_empty_iff: "rolling agg w s = [] \<longleftrightarrow> s = []"
  by (simp add: rolling_def)

lemma sum_list_lower:
  fixes a :: real
  shows "\<forall>r \<in> set rs. a \<le> r \<Longrightarrow> a * real (length rs) \<le> sum_list rs"
  by (induction rs) (auto simp: algebra_simps)

lemma sum_list_upper:
  fixes b :: real
  shows "\<forall>r \<in> set rs. r \<le> b \<Longrightarrow> sum_list rs \<le> b * real (length rs)"
  by (induction rs) (auto simp: algebra_simps)

lemma mean_bounds:
  assumes "rs \<noteq> []" and "\<forall>r \<in> set rs. a \<le> r \<and> r \<le> b"
  shows "a \<le> mean rs \<and> mean rs \<le> b"
proof -
  have n: "0 < real (length rs)" using assms(1) by simp
  have "a * real (length rs) \<le> sum_list rs" using assms(2) by (intro sum_list_lower) auto
  moreover have "sum_list rs \<le> b * real (length rs)" using assms(2) by (intro sum_list_upper) auto
  ultimately show ?thesis
    using n by (simp add: mean_def pos_le_divide_eq pos_divide_le_eq)
qed

lemma mean_nonneg: "\<forall>r \<in> set rs. 0 \<le> r \<Longrightarrow> 0 \<le> mean rs"
  by (simp add: mean_def sum_list_nonneg)

lemma mean_replicate: "0 < n \<Longrightarrow> mean (replicate n c) = c"
  by (simp add: mean_def sum_list_replicate)

section \<open>The range of the RSI\<close>

lemma rolling_undefined_last:
  assumes "s \<noteq> []" and "w = 0 \<or> length s < w"
  shows "last (rolling agg w s) = NaN"
proof -
  have "rolling agg w s \<noteq> []" using assms by (auto simp: rolling_def)
  then have "last (rolling agg w s) = rolling agg w s ! (length s - 1)"
    by (simp add: last_conv_nth length_rolling)
  also have "\<dots> = NaN" using assms by (auto simp: rolling_nth)
  finally show ?thesis .
qed

lemma series_op_last:
  assumes "a \<noteq> []" and "length b = length a"
  shows "last (series_op f a b) = f (last a) (last b)"
proof -
  have nb: "b \<noteq> []" using assms by auto
  have "series_op f a b \<noteq> []" using assms by (auto simp: series_op_def)
  then have "last (series_op f a b) = series_op f a b ! (length a - 1)"
    using assms by (simp add: last_conv_nth length_series_op)
  also have "\<dots> = f (a ! (length a - 1)) (b ! (length a - 1))"
    using assms by (intro series_op_nth) auto
  finally show ?thesis using assms nb by (simp add: last_conv_nth)
qed

lemma gain_source_finite:
  "\<exists>gs. map (\<lambda>x. if fgt x (Fin 0) then x else Fin 0) (series_diff (pd_Series ps)) = map Fin gs
        \<and> length gs = length ps \<and> (\<forall>g \<in> set gs. 0 \<le> g)"
proof -
  let ?k = "\<lambda>i. if i = 0 then 0 else if ps ! i - ps ! (i - 1) > 0 then ps ! i - ps ! (i - 1) else 0"
  have "map (\<lambda>x. if fgt x (Fin 0) then x else Fin 0) (series_diff (pd_Series ps))
          = map Fin (map ?k [0..<length ps])"
    by (auto simp: series_diff_def pd_Series_def fgt_def fsub_def)
  moreover have "\<forall>g \<in> set (map ?k [0..<length ps]). 0 \<le> g" by auto
  ultimately show ?thesis by (intro exI[of _ "map ?k [0..<length ps]"]) simp
qed

lemma loss_source_finite:
  "\<exists>ls. map fneg (map (\<lambda>x. if flt x (Fin 0) then x else Fin 0) (series_diff (pd_Series ps)))
          = map Fin ls
        \<and> length ls = length ps \<and> (\<forall>l \<in> set ls. 0 \<le> l)"
proof -
  let ?k = "\<lambda>i. if i = 0 then 0 else if ps ! i - ps ! (i - 1) < 0 then - (ps ! i - ps ! (i - 1)) else 0"
  have "map fneg (map (\<lambda>x. if flt x (Fin 0) then x else Fin 0) (series_diff (pd_Series ps)))
          = map Fin (map ?k [0..<length ps])"
    by (auto simp: series_diff_def pd_Series_def fsub_def)
  moreover have "\<forall>g \<in> set (map ?k [0..<length ps]). 0 \<le> g" by auto
  ultimately show ?thesis by (intro exI[of _ "map ?k [0..<length ps]"]) simp
qed

lemma rolling_mean_nonneg_last:
  assumes "rs \<noteq> []" and "\<forall>r \<in> set rs. 0 \<le> r"
  shows "last (rolling agg_mean w (map Fin rs)) = NaN
         \<or> (\<exists>m. last (rolling agg_mean w (map Fin rs)) = Fin m \<and> 0 \<le> m)"
proof (cases "w = 0 \<or> length rs < w")
  case True
  then show ?thesis using assms(1) by (simp add: rolling_undefined_last)
next
  case False
  then have w: "0 < w" "w \<le> length rs" by auto
  have "set (last_n w rs) \<subseteq> set rs" by (auto simp: last_n_def dest: in_set_dropD)
  then have "0 \<le> mean (last_n w rs)" using assms(2) by (intro mean_nonneg) auto
  then show ?thesis by (simp add: rolling_Fin_last[OF w] agg_mean_def)
qed

lemma rsi_scalar:
  assumes "0 \<le> g" and "0 \<le> l"
  shows "fsub (Fin 100) (fdiv (Fin 100) (fadd (Fin 1) (fdiv (Fin g) (Fin l)))) = NaN
         \<or> (\<exists>x. fsub (Fin 100) (fdiv (Fin 100) (fadd (Fin 1) (fdiv (Fin g) (Fin l)))) = Fin x
                 \<and> 0 \<le> x \<and> x \<le> 100)"
proof (cases "l = 0")
  case True
  then show ?thesis using assms by (cases "g = 0") (auto simp: fsub_def)
next
  case False
  then have l: "0 < l" using assms by simp
  have q: "0 \<le> g / l" using assms l by simp
  then have pos: "1 + g / l \<noteq> 0" by linarith
  have "0 \<le> 100 / (1 + g / l)" using q by simp
  moreover have "100 / (1 + g / l) \<le> 100" using q by (simp add: divide_le_eq)
  ultimately show ?thesis using False pos by (simp add: fsub_def)
qed

lemma calculate_rsi_range:
  "\<exists>x. calculate_rsi ps w = Fin x \<and> 0 \<le> x \<and> x \<le> 100"
proof (cases "ps = []")
  case True
  then show ?thesis
    by (simp add: calculate_rsi_def rsi_series_def rsi_rs_def series_op_def rsi_gain_def
        rsi_loss_def rolling_def series_diff_def pd_Series_def)
next
  case False
  obtain gs where gs: "map (\<lambda>x. if fgt x (Fin 0) then x else Fin 0) (series_diff (pd_Series ps)) = map Fin gs"
      "length gs = length ps" "\<forall>g \<in> set gs. 0 \<le> g"
    using gain_source_finite by blast
  obtain ls where ls: "map fneg (map (\<lambda>x. if flt x (Fin 0) then x else Fin 0) (series_diff (pd_Series ps))) = map Fin ls"
      "length ls = length ps" "\<forall>l \<in> set ls. 0 \<le> l"
    using loss_source_finite by blast
  have gne: "gs \<noteq> []" and lne: "ls \<noteq> []" using False gs(2) ls(2) by auto
  have gain: "rsi_gain ps w = rolling agg_mean w (map Fin gs)"
    by (simp only: rsi_gain_def Let_def gs(1))
  have loss: "rsi_loss ps w = rolling agg_mean w (map Fin ls)"
    by (simp only: rsi_loss_def Let_def ls(1))
  have rs_ne: "rsi_rs ps w \<noteq> []"
    using gne by (simp add: rsi_rs_def gain loss series_op_def rolling_def)
  have rs_last: "last (rsi_rs ps w) = fdiv (last (rsi_gain ps w)) (last (rsi_loss ps w))"
    unfolding rsi_rs_def using False gs(2) ls(2)
    by (intro series_op_last) (simp_all add: gain loss rolling_def)
  have rsi_last: "last (rsi_series ps w)
      = fsub (Fin 100) (fdiv (Fin 100) (fadd (Fin 1) (last (rsi_rs ps w))))"
    using rs_ne by (simp add: rsi_series_def last_map)
  have "last (rsi_series ps w) = NaN
        \<or> (\<exists>x. last (rsi_series ps w) = Fin x \<and> 0 \<le> x \<and> x \<le> 100)"
  proof -
    consider (gn) "last (rsi_gain ps w) = NaN" | (ln) "last (rsi_loss ps w) = NaN"
      | (fin) g l where "last (rsi_gain ps w) = Fin g" "0 \<le> g"
                        "last (rsi_loss ps w) = Fin l" "0 \<le> l"
      using rolling_mean_nonneg_last[OF gne gs(3), of w]
            rolling_mean_nonneg_last[OF lne ls(3), of w]
      unfolding gain loss by blast
    then show ?thesis
    proof cases
      case gn
      then show ?thesis by (simp add: rsi_last rs_last fsub_def)
    next
      case ln
      then show ?thesis
        by (cases "last (rsi_gain ps w)") (simp_all add: rsi_last rs_last fsub_def)
    next
      case fin
      then show ?thesis using rsi_scalar[OF fin(2) fin(4)] by (simp add: rsi_last rs_last)
    qed
  qed
  then show ?thesis
    by (auto simp: calculate_rsi_def Let_def)
qed

section \<open>The range of the stochastic oscillator\<close>

lemma fadd_NaN_right: "fadd x NaN = NaN"
  by (cases x) simp_all

lemma fdiv_NaN_right: "fdiv x NaN = NaN"
  by (cases x) simp_all

lemma fmul_NaN_right: "fmul x NaN = NaN"
  by (cases x) simp_all

lemma fsub_Fin: "fsub (Fin a) (Fin b) = Fin (a - b)"
  by (simp add: fsub_def)

lemma fsub_NaN_right: "fsub x NaN = NaN"
  by (simp add: fsub_def fadd_NaN_right)

lemma window_contains_current:
  assumes "i < length xs" and "0 < w" and "w \<le> i + 1"
  shows "xs ! i \<in> set (take w (drop (i + 1 - w) xs))"
proof -
  have len: "length (take w (drop (i + 1 - w) xs)) = w" using assms by simp
  have "take w (drop (i + 1 - w) xs) ! (w - 1) = xs ! i" using assms by simp
  moreover have "w - 1 < length (take w (drop (i + 1 - w) xs))" using len assms by simp
  ultimately show ?thesis by (metis nth_mem)
qed

lemma window_nonempty:
  assumes "i < length xs" and "0 < w" and "w \<le> i + 1"
  shows "take w (drop (i + 1 - w) xs) \<noteq> []"
  using window_contains_current[OF assms] by (metis empty_iff empty_set)

lemma length_stoch_k_series:
  "length hs = length cs \<Longrightarrow> length ls = length cs \<Longrightarrow>
   length (stoch_k_series hs ls cs w) = length cs"
  by (simp add: stoch_k_series_def Let_def length_series_op length_rolling length_pd_Series)

lemma stoch_k_nth:
  assumes "length hs = length cs" and "length ls = length cs"
    and "i < length cs" and "0 < w" and "w \<le> i + 1"
  shows "stoch_k_series hs ls cs w ! i =
           fmul (Fin 100)
             (fdiv (Fin (cs ! i - Min (set (take w (drop (i + 1 - w) ls)))))
                   (Fin (Max (set (take w (drop (i + 1 - w) hs)))
                          - Min (set (take w (drop (i + 1 - w) ls))))))"
proof -
  have ll: "rolling agg_min w (pd_Series ls) ! i = Fin (Min (set (take w (drop (i + 1 - w) ls))))"
    unfolding pd_Series_def using assms by (subst rolling_Fin_nth) (simp_all add: agg_min_def)
  have hh: "rolling agg_max w (pd_Series hs) ! i = Fin (Max (set (take w (drop (i + 1 - w) hs))))"
    unfolding pd_Series_def using assms by (subst rolling_Fin_nth) (simp_all add: agg_max_def)
  have c: "pd_Series cs ! i = Fin (cs ! i)" using assms by (simp add: pd_Series_def)
  have "stoch_k_series hs ls cs w ! i =
          fmul (Fin 100)
            (fdiv (fsub (pd_Series cs ! i) (rolling agg_min w (pd_Series ls) ! i))
                  (fsub (rolling agg_max w (pd_Series hs) ! i)
                        (rolling agg_min w (pd_Series ls) ! i)))"
    using assms
    by (simp add: stoch_k_series_def Let_def series_op_nth length_series_op length_rolling
        length_pd_Series)
  then show ?thesis by (simp only: ll hh c fsub_Fin)
qed

lemma stoch_k_nth_undefined:
  assumes "length hs = length cs" and "length ls = length cs"
    and "i < length cs" and "w = 0 \<or> i + 1 < w"
  shows "stoch_k_series hs ls cs w ! i = NaN"
proof -
  have ll: "rolling agg_min w (pd_Series ls) ! i = NaN"
    using assms by (auto simp: rolling_nth length_pd_Series)
  have "stoch_k_series hs ls cs w ! i =
          fmul (Fin 100)
            (fdiv (fsub (pd_Series cs ! i) (rolling agg_min w (pd_Series ls) ! i))
                  (fsub (rolling agg_max w (pd_Series hs) ! i)
                        (rolling agg_min w (pd_Series ls) ! i)))"
    using assms
    by (simp add: stoch_k_series_def Let_def series_op_nth length_series_op length_rolling
        length_pd_Series)
  then show ?thesis by (simp add: ll fsub_NaN_right fdiv_NaN_right fmul_NaN_right)
qed

lemma stoch_scalar:
  assumes "lo \<le> c" and "c \<le> hi"
  shows "fmul (Fin 100) (fdiv (Fin (c - lo)) (Fin (hi - lo))) = NaN
         \<or> (\<exists>x. fmul (Fin 100) (fdiv (Fin (c - lo)) (Fin (hi - lo))) = Fin x \<and> 0 \<le> x \<and> x \<le> 100)"
proof (cases "hi - lo = 0")
  case True
  then have "c - lo = 0" using assms by linarith
  then show ?thesis using True by simp
next
  case False
  then have pos: "0 < hi - lo" using assms by linarith
  define q where "q = (c - lo) / (hi - lo)"
  have "0 \<le> q" using assms pos by (simp add: q_def)
  moreover have "q \<le> 1" using assms pos by (simp add: q_def)
  moreover have "fmul (Fin 100) (fdiv (Fin (c - lo)) (Fin (hi - lo))) = Fin (100 * q)"
    using False by (simp add: q_def)
  ultimately show ?thesis by simp
qed

lemma stoch_k_nth_range:
  assumes "length hs = length cs" and "length ls = length cs" and "i < length cs"
    and "ls ! i \<le> cs ! i" and "cs ! i \<le> hs ! i"
  shows "stoch_k_series hs ls cs w ! i = NaN
         \<or> (\<exists>x. stoch_k_series hs ls cs w ! i = Fin x \<and> 0 \<le> x \<and> x \<le> 100)"
proof (cases "w = 0 \<or> i + 1 < w")
  case True
  then show ?thesis using stoch_k_nth_undefined[OF assms(1,2,3)] by simp
next
  case False
  then have w: "0 < w" "w \<le> i + 1" by auto
  have il: "i < length ls" and ih: "i < length hs" using assms by auto
  have "Min (set (take w (drop (i + 1 - w) ls))) \<le> ls ! i"
    using window_contains_current[OF il w] by (intro Min_le) auto
  moreover have "hs ! i \<le> Max (set (take w (drop (i + 1 - w) hs)))"
    using window_contains_current[OF ih w] by (intro Max_ge) auto
  ultimately have "Min (set (take w (drop (i + 1 - w) ls))) \<le> cs ! i"
    and "cs ! i \<le> Max (set (take w (drop (i + 1 - w) hs)))"
    using assms(4,5) by linarith+
  then show ?thesis
    unfolding stoch_k_nth[OF assms(1,2,3) w] by (rule stoch_scalar)
qed

lemma rolling_mean_last_range:
  assumes "s \<noteq> []"
    and "\<forall>x \<in> set s. x = NaN \<or> (\<exists>r. x = Fin r \<and> a \<le> r \<and> r \<le> b)"
  shows "last (rolling agg_mean w s) = NaN
         \<or> (\<exists>m. last (rolling agg_mean w s) = Fin m \<and> a \<le> m \<and> m \<le> b)"
proof (cases "w = 0 \<or> length s < w")
  case True
  then show ?thesis using assms(1) by (simp add: rolling_undefined_last)
next
  case False
  then have w: "0 < w" "w \<le> length s" by auto
  have ne: "rolling agg_mean w s \<noteq> []" using assms(1) by (simp add: rolling_empty_iff)
  have l: "last (rolling agg_mean w s) = rolling agg_mean w s ! (length s - 1)"
    using ne by (simp add: last_conv_nth length_rolling)
  show ?thesis
  proof (cases "window_values w s (length s - 1)")
    case None
    then show ?thesis using assms(1) w by (simp add: l rolling_nth)
  next
    case (Some rs)
    then have win: "take w (drop (length s - 1 + 1 - w) s) = map Fin rs"
      unfolding window_values_def by (rule those_fin_opt_Some)
    have "length (take w (drop (length s - 1 + 1 - w) s)) = w" using w by simp
    then have rs_ne: "rs \<noteq> []" using w unfolding win by auto
    have "\<forall>r \<in> set rs. a \<le> r \<and> r \<le> b"
    proof
      fix r assume "r \<in> set rs"
      then have "Fin r \<in> set (take w (drop (length s - 1 + 1 - w) s))"
        unfolding win by simp
      then have "Fin r \<in> set s"
        by (meson in_set_dropD in_set_takeD)
      then show "a \<le> r \<and> r \<le> b" using assms(2) by auto
    qed
    then have "a \<le> mean rs \<and> mean rs \<le> b" using rs_ne by (intro mean_bounds) auto
    then show ?thesis using assms(1) w Some by (simp add: l rolling_nth agg_mean_def)
  qed
qed

lemma calculate_stochastic_range:
  assumes "length hs = length cs" and "length ls = length cs"
    and "\<forall>i < length cs. ls ! i \<le> cs ! i \<and> cs ! i \<le> hs ! i"
  shows "\<exists>k d. st_k (calculate_stochastic hs ls cs kp dp) = Fin k \<and> 0 \<le> k \<and> k \<le> 100 \<and>
               st_d (calculate_stochastic hs ls cs kp dp) = Fin d \<and> 0 \<le> d \<and> d \<le> 100"
proof -
  define ks where "ks = stoch_k_series hs ls cs kp"
  have len: "length ks = length cs"
    unfolding ks_def by (rule length_stoch_k_series[OF assms(1,2)])
  have all: "\<forall>x \<in> set ks. x = NaN \<or> (\<exists>r. x = Fin r \<and> 0 \<le> r \<and> r \<le> 100)"
  proof
    fix x assume "x \<in> set ks"
    then obtain i where i: "i < length ks" "x = ks ! i" by (metis in_set_conv_nth)
    then have "i < length cs" using len by simp
    then show "x = NaN \<or> (\<exists>r. x = Fin r \<and> 0 \<le> r \<and> r \<le> 100)"
      using stoch_k_nth_range[OF assms(1,2), of i kp] assms(3) i(2) unfolding ks_def by blast
  qed
  have k: "\<exists>k. (if ks \<noteq> [] \<and> \<not> is_nan (last ks) then last ks else Fin 50) = Fin k
               \<and> 0 \<le> k \<and> k \<le> 100"
  proof (cases "ks = []")
    case True
    then show ?thesis by simp
  next
    case False
    then have "last ks \<in> set ks" by simp
    then show ?thesis using all by fastforce
  qed
  have d: "\<exists>d. (if rolling agg_mean dp ks \<noteq> [] \<and> \<not> is_nan (last (rolling agg_mean dp ks))
                 then last (rolling agg_mean dp ks) else Fin 50) = Fin d
               \<and> 0 \<le> d \<and> d \<le> 100"
  proof (cases "ks = []")
    case True
    then show ?thesis by (simp add: rolling_def)
  next
    case False
    then show ?thesis using rolling_mean_last_range[OF False all, of dp] by fastforce
  qed
  have sk: "st_k (calculate_stochastic hs ls cs kp dp)
              = (if ks \<noteq> [] \<and> \<not> is_nan (last ks) then last ks else Fin 50)"
    by (simp add: calculate_stochastic_def Let_def ks_def)
  have sd: "st_d (calculate_stochastic hs ls cs kp dp)
              = (if rolling agg_mean dp ks \<noteq> [] \<and> \<not> is_nan (last (rolling agg_mean dp ks))
                 then last (rolling agg_mean dp ks) else Fin 50)"
    by (simp add: calculate_stochastic_def Let_def ks_def)
  show ?thesis unfolding sk sd using k d by blast
qed

section \<open>Constant series\<close>

lemma last_n_replicate: "0 < w \<Longrightarrow> w \<le> n \<Longrightarrow> last_n w (replicate n c) = replicate w c"
  by (simp add: last_n_def)

lemma pd_Series_replicate: "pd_Series (replicate n c) = replicate n (Fin c)"
  by (simp add: pd_Series_def)

lemma rolling_flat_last:
  assumes "0 < w" and "w \<le> n"
  shows "last (rolling agg w (replicate n (Fin c))) = agg (replicate w c)"
  using rolling_Fin_last[of w "replicate n c" agg] assms by (simp add: last_n_replicate)

lemma agg_mean_replicate: "0 < w \<Longrightarrow> agg_mean (replicate w c) = Fin c"
  by (simp add: agg_mean_def mean_replicate)

lemma agg_std_replicate: "2 \<le> w \<Longrightarrow> agg_std (replicate w c) = Fin 0"
  by (simp add: agg_std_def mean_replicate sum_list_replicate)

lemma flat_gain_source:
  "map (\<lambda>x. if fgt x (Fin 0) then x else Fin 0) (series_diff (pd_Series (replicate n c)))
     = replicate n (Fin 0)"
  by (auto simp: series_diff_def pd_Series_def fgt_def fsub_def map_replicate_trivial[symmetric]
      simp del: map_replicate_trivial)

lemma flat_loss_source:
  "map fneg (map (\<lambda>x. if flt x (Fin 0) then x else Fin 0) (series_diff (pd_Series (replicate n c))))
     = replicate n (Fin 0)"
  by (auto simp: series_diff_def pd_Series_def fsub_def map_replicate_trivial[symmetric]
      simp del: map_replicate_trivial)

lemma flat_rsi:
  assumes "14 \<le> n"
  shows "last (rsi_gain (replicate n c) 14) = Fin 0"
    and "last (rsi_loss (replicate n c) 14) = Fin 0"
    and "last (rsi_rs (replicate n c) 14) = NaN"
    and "calculate_rsi (replicate n c) 14 = Fin 50"
proof -
  have n: "0 < n" using assms by simp
  show g: "last (rsi_gain (replicate n c) 14) = Fin 0"
    unfolding rsi_gain_def Let_def flat_gain_source
    using assms by (simp add: rolling_flat_last agg_mean_replicate)
  show l: "last (rsi_loss (replicate n c) 14) = Fin 0"
    unfolding rsi_loss_def Let_def flat_loss_source
    using assms by (simp add: rolling_flat_last agg_mean_replicate)
  have lg: "length (rsi_gain (replicate n c) 14) = n"
    by (simp add: rsi_gain_def length_rolling length_series_diff length_pd_Series)
  have ll: "length (rsi_loss (replicate n c) 14) = n"
    by (simp add: rsi_loss_def length_rolling length_series_diff length_pd_Series)
  have gne: "rsi_gain (replicate n c) 14 \<noteq> []" using lg n by auto
  show rs: "last (rsi_rs (replicate n c) 14) = NaN"
    unfolding rsi_rs_def using series_op_last[OF gne, of "rsi_loss (replicate n c) 14" fdiv]
    by (simp add: lg ll g l)
  have rne: "rsi_rs (replicate n c) 14 \<noteq> []"
    using n by (simp add: rsi_rs_def series_op_def lg ll)
  have "last (rsi_series (replicate n c) 14) = NaN"
    using rne by (simp add: rsi_series_def last_map rs fsub_def)
  then show "calculate_rsi (replicate n c) 14 = Fin 50"
    by (simp add: calculate_rsi_def)
qed

lemma ewm_from_replicate: "ewm_from \<alpha> c (replicate n c) = replicate n c"
  by (induction n) (simp_all add: algebra_simps Let_def)

lemma ewm_mean_replicate: "ewm_mean s (replicate n c) = replicate n c"
  by (cases n) (simp_all add: ewm_mean_def ewm_from_replicate)

lemma flat_macd:
  assumes "0 < n"
  shows "calculate_macd (replicate n c) f s g
           = \<lparr>md_macd = Fin 0, md_signal = Fin 0, md_histogram = Fin 0\<rparr>"
  using assms by (simp add: calculate_macd_def ewm_mean_replicate Let_def)

lemma flat_ma:
  assumes "0 < w" and "w \<le> n"
  shows "calculate_ma (replicate n c) w = Fin c"
proof -
  have "last (rolling agg_mean w (pd_Series (replicate n c))) = Fin c"
    using assms by (simp add: pd_Series_replicate rolling_flat_last agg_mean_replicate)
  moreover have "rolling agg_mean w (pd_Series (replicate n c)) \<noteq> []"
    using assms by (simp add: rolling_empty_iff pd_Series_def)
  ultimately show ?thesis by (simp add: calculate_ma_def Let_def)
qed

lemma flat_bollinger:
  assumes "20 \<le> n"
  shows "calculate_bollinger_bands (replicate n c) 20 2
           = \<lparr>bb_upper = Fin c, bb_middle = Fin c, bb_lower = Fin c\<rparr>"
proof -
  define middle where "middle = rolling agg_mean 20 (pd_Series (replicate n c))"
  define sd2 where "sd2 = map (\<lambda>x. fmul x (Fin 2)) (rolling agg_std 20 (pd_Series (replicate n c)))"
  have n: "0 < n" using assms by simp
  have lm: "length middle = n" by (simp add: middle_def length_rolling length_pd_Series)
  have ls: "length sd2 = n" by (simp add: sd2_def length_rolling length_pd_Series)
  have mne: "middle \<noteq> []" using lm n by auto
  have sne: "rolling agg_std 20 (pd_Series (replicate n c)) \<noteq> []"
    using n by (simp add: rolling_empty_iff pd_Series_def)
  have m: "last middle = Fin c"
    using assms by (simp add: middle_def pd_Series_replicate rolling_flat_last agg_mean_replicate)
  have s: "last sd2 = Fin 0"
    using assms sne
    by (simp add: sd2_def last_map pd_Series_replicate rolling_flat_last agg_std_replicate)
  have u: "last (series_op fadd middle sd2) = Fin c"
    using series_op_last[OF mne, of sd2 fadd] by (simp add: lm ls m s)
  have l: "last (series_op fsub middle sd2) = Fin c"
    using series_op_last[OF mne, of sd2 fsub] by (simp add: lm ls m s fsub_Fin)
  have une: "series_op fadd middle sd2 \<noteq> []" "series_op fsub middle sd2 \<noteq> []"
    using n by (simp_all add: series_op_def lm ls)
  show ?thesis
    unfolding calculate_bollinger_bands_def Let_def middle_def[symmetric] sd2_def[symmetric]
    using une mne by (simp add: u l m)
qed

lemma flat_true_range:
  "true_range (replicate n c) (replicate n c) (replicate n c) = replicate n (Fin 0)"
proof -
  have "true_range (replicate n c) (replicate n c) (replicate n c) = map (\<lambda>_. Fin 0) [0..<n]"
    by (auto simp: true_range_def Let_def series_op_def series_at_def series_shift_def
        pd_Series_def fsub_def)
  then show ?thesis by (simp add: map_replicate_trivial)
qed

lemma flat_atr:
  assumes "0 < w" and "w \<le> n"
  shows "calculate_atr (replicate n c) (replicate n c) (replicate n c) w = Fin 0"
proof -
  have "last (rolling agg_mean w (replicate n (Fin 0))) = Fin 0"
    using assms by (simp add: rolling_flat_last agg_mean_replicate)
  moreover have "rolling agg_mean w (replicate n (Fin 0)) \<noteq> []"
    using assms by (simp add: rolling_empty_iff)
  ultimately show ?thesis by (simp add: calculate_atr_def Let_def flat_true_range)
qed

lemma those_replicate_Some: "those (replicate w (Some r)) = Some (replicate w r)"
  by (induction w) simp_all

lemma those_fin_opt_replicate: "those (map fin_opt (replicate w (Fin r))) = Some (replicate w r)"
  by (simp add: those_replicate_Some)

lemma those_fin_opt_None:
  "x \<in> set xs \<Longrightarrow> \<not> is_finite x \<Longrightarrow> those (map fin_opt xs) = None"
proof (induction xs)
  case Nil
  then show ?case by simp
next
  case (Cons y ys)
  then show ?case by (cases y; cases "x = y") (auto split: option.splits)
qed

lemma window_const:
  assumes "m + w \<le> length s" and "\<forall>j. m \<le> j \<and> j < m + w \<longrightarrow> s ! j = x"
  shows "take w (drop m s) = replicate w x"
  using assms by (intro nth_equalityI) auto

lemma flat_stoch_k_nth:
  assumes "i < n" and "0 < w" and "w \<le> i + 1"
  shows "stoch_k_series (replicate n h) (replicate n l) (replicate n c) w ! i
           = fmul (Fin 100) (fdiv (Fin (c - l)) (Fin (h - l)))"
proof -
  have "stoch_k_series (replicate n h) (replicate n l) (replicate n c) w ! i =
           fmul (Fin 100)
             (fdiv (Fin (replicate n c ! i
                          - Min (set (take w (drop (i + 1 - w) (replicate n l))))))
                   (Fin (Max (set (take w (drop (i + 1 - w) (replicate n h))))
                          - Min (set (take w (drop (i + 1 - w) (replicate n l)))))))"
    using assms by (intro stoch_k_nth) auto
  moreover have "min w (n - (i + 1 - w)) = w" using assms by auto
  ultimately show ?thesis using assms by simp
qed

lemma flat_stochastic:
  assumes "0 < kp" and "0 < dp" and "kp + dp \<le> n + 1"
  shows "st_k (calculate_stochastic (replicate n h) (replicate n l) (replicate n c) kp dp)
           = (if is_nan (fmul (Fin 100) (fdiv (Fin (c - l)) (Fin (h - l)))) then Fin 50
              else fmul (Fin 100) (fdiv (Fin (c - l)) (Fin (h - l))))"
    and "st_d (calculate_stochastic (replicate n h) (replicate n l) (replicate n c) kp dp)
           = (if is_finite (fmul (Fin 100) (fdiv (Fin (c - l)) (Fin (h - l))))
              then fmul (Fin 100) (fdiv (Fin (c - l)) (Fin (h - l))) else Fin 50)"
proof -
  define x where "x = fmul (Fin 100) (fdiv (Fin (c - l)) (Fin (h - l)))"
  define ks where "ks = stoch_k_series (replicate n h) (replicate n l) (replicate n c) kp"
  have n: "0 < n" using assms by simp
  have len: "length ks = n"
    unfolding ks_def using length_stoch_k_series[of "replicate n h" "replicate n c" "replicate n l" kp]
    by simp
  have ne: "ks \<noteq> []" using len n by auto
  have kx: "ks ! j = x" if "kp \<le> j + 1" and "j < n" for j
    unfolding ks_def x_def using that assms by (intro flat_stoch_k_nth) auto
  have lastk: "last ks = x"
    using ne len kx[of "n - 1"] assms by (simp add: last_conv_nth)
  have sk: "st_k (calculate_stochastic (replicate n h) (replicate n l) (replicate n c) kp dp)
              = (if ks \<noteq> [] \<and> \<not> is_nan (last ks) then last ks else Fin 50)"
    by (simp add: calculate_stochastic_def Let_def ks_def)
  show "st_k (calculate_stochastic (replicate n h) (replicate n l) (replicate n c) kp dp)
           = (if is_nan (fmul (Fin 100) (fdiv (Fin (c - l)) (Fin (h - l)))) then Fin 50
              else fmul (Fin 100) (fdiv (Fin (c - l)) (Fin (h - l))))"
    unfolding sk x_def[symmetric] using ne lastk by simp
  have win: "take dp (drop (n - 1 + 1 - dp) ks) = replicate dp x"
  proof (rule window_const)
    show "n - 1 + 1 - dp + dp \<le> length ks" using assms len by simp
    show "\<forall>j. n - 1 + 1 - dp \<le> j \<and> j < n - 1 + 1 - dp + dp \<longrightarrow> ks ! j = x"
      using assms kx by auto
  qed
  have dne: "rolling agg_mean dp ks \<noteq> []" using ne by (simp add: rolling_empty_iff)
  have lastd: "last (rolling agg_mean dp ks)
                 = (case those (map fin_opt (replicate dp x)) of None \<Rightarrow> NaN
                    | Some rs \<Rightarrow> agg_mean rs)"
  proof -
    have "last (rolling agg_mean dp ks) = rolling agg_mean dp ks ! (n - 1)"
      using dne len by (simp add: last_conv_nth length_rolling)
    also have "\<dots> = (case window_values dp ks (n - 1) of None \<Rightarrow> NaN | Some rs \<Rightarrow> agg_mean rs)"
      using assms len n by (simp add: rolling_nth)
    also have "window_values dp ks (n - 1) = those (map fin_opt (replicate dp x))"
      unfolding window_values_def by (simp only: win)
    finally show ?thesis .
  qed
  have dval: "last (rolling agg_mean dp ks) = (if is_finite x then x else NaN)"
  proof (cases x)
    case (Fin r)
    then show ?thesis
      using assms by (simp add: lastd those_replicate_Some agg_mean_replicate)
  next
    case PInf
    have "those (map fin_opt (replicate dp x)) = None"
      using assms PInf by (intro those_fin_opt_None[of x]) auto
    then show ?thesis using PInf by (simp add: lastd)
  next
    case NInf
    have "those (map fin_opt (replicate dp x)) = None"
      using assms NInf by (intro those_fin_opt_None[of x]) auto
    then show ?thesis using NInf by (simp add: lastd)
  next
    case NaN
    have "those (map fin_opt (replicate dp x)) = None"
      using assms NaN by (intro those_fin_opt_None[of x]) auto
    then show ?thesis using NaN by (simp add: lastd)
  qed
  have sd: "st_d (calculate_stochastic (replicate n h) (replicate n l) (replicate n c) kp dp)
              = (if rolling agg_mean dp ks \<noteq> [] \<and> \<not> is_nan (last (rolling agg_mean dp ks))
                 then last (rolling agg_mean dp ks) else Fin 50)"
    by (simp add: calculate_stochastic_def Let_def ks_def)
  show "st_d (calculate_stochastic (replicate n h) (replicate n l) (replicate n c) kp dp)
           = (if is_finite (fmul (Fin 100) (fdiv (Fin (c - l)) (Fin (h - l))))
              then fmul (Fin 100) (fdiv (Fin (c - l)) (Fin (h - l))) else Fin 50)"
    unfolding sd x_def[symmetric] using dne dval by (cases x) simp_all
qed

lemma flat_simple_returns:
  assumes "c \<noteq> 0"
  shows "simple_returns (replicate n c) = replicate (n - 1) (Fin 0)"
proof -
  have "simple_returns (replicate n c) = map (\<lambda>_. Fin 0) [0..<n - 1]"
    using assms by (auto simp: simple_returns_def)
  then show ?thesis by (simp add: map_replicate_trivial)
qed

lemma np_std_zeros: "0 < m \<Longrightarrow> np_std (replicate m (Fin 0)) = Fin 0"
  by (simp add: np_std_def those_replicate_Some mean_replicate)

lemma flat_app_volatility:
  assumes "c \<noteq> 0" and "2 \<le> n"
  shows "app_calculate_volatility \<lparr>closes = replicate n c, highs = hs, lows = ls, volumes = vs\<rparr>
           = Fin 0"
  using assms by (simp add: app_calculate_volatility_def Let_def flat_simple_returns np_std_zeros)

lemma flat_support:
  assumes "0 < n"
  shows "calculate_support \<lparr>closes = cs, highs = hs, lows = replicate n c, volumes = vs\<rparr> = Fin c"
  using assms by (simp add: calculate_support_def Let_def last_n_def)

lemma flat_resistance:
  assumes "0 < n"
  shows "calculate_resistance \<lparr>closes = cs, highs = replicate n c, lows = ls, volumes = vs\<rparr> = Fin c"
  using assms by (simp add: calculate_resistance_def Let_def last_n_def)

section \<open>The flat series\<close>

text \<open>
  C3. On the series of 60 bars whose close, high and low are all 100 and whose volume is
  1,000,000 the pipeline gives \<open>rsi = 50.0\<close> (the latest average gain and average loss
  are both 0, their quotient is NaN, and the NaN test substitutes 50.0), \<open>macd = 0.0\<close>,
  \<open>ma20 = ma50 = 100.0\<close>, \<open>bb_upper = bb_lower = 100.0\<close>, \<open>atr = 0.0\<close>, the signal
  HOLD, the risk level Low, annualized volatility 0, and support and resistance 100.
\<close>

theorem flat_series_end_to_end:
  "calculate_indicators \<lparr>closes = replicate 60 100, highs = replicate 60 100,
       lows = replicate 60 100, volumes = replicate 60 1000000\<rparr> ''rsi'' = Some (Fin 50) \<and>
   last (rsi_gain (replicate 60 100) 14) = Fin 0 \<and>
   last (rsi_loss (replicate 60 100) 14) = Fin 0 \<and>
   last (rsi_rs (replicate 60 100) 14) = NaN \<and>
   calculate_indicators \<lparr>closes = replicate 60 100, highs = replicate 60 100,
       lows = replicate 60 100, volumes = replicate 60 1000000\<rparr> ''macd'' = Some (Fin 0) \<and>
   calculate_indicators \<lparr>closes = replicate 60 100, highs = replicate 60 100,
       lows = replicate 60 100, volumes = replicate 60 1000000\<rparr> ''ma20'' = Some (Fin 100) \<and>
   calculate_indicators \<lparr>closes = replicate 60 100, highs = replicate 60 100,
       lows = replicate 60 100, volumes = replicate 60 1000000\<rparr> ''ma50'' = Some (Fin 100) \<and>
   calculate_indicators \<lparr>closes = replicate 60 100, highs = replicate 60 100,
       lows = replicate 60 100, volumes = replicate 60 1000000\<rparr> ''bb_upper'' = Some (Fin 100) \<and>
   calculate_indicators \<lparr>closes = replicate 60 100, highs = replicate 60 100,
       lows = replicate 60 100, volumes = replicate 60 1000000\<rparr> ''bb_lower'' = Some (Fin 100) \<and>
   calculate_indicators \<lparr>closes = replicate 60 100, highs = replicate 60 100,
       lows = replicate 60 100, volumes = replicate 60 1000000\<rparr> ''atr'' = Some (Fin 0) \<and>
   determine_signal (calculate_indicators \<lparr>closes = replicate 60 100, highs = replicate 60 100,
       lows = replicate 60 100, volumes = replicate 60 1000000\<rparr>) = HOLD \<and>
   determine_risk_level (calculate_indicators \<lparr>closes = replicate 60 100,
       highs = replicate 60 100, lows = replicate 60 100, volumes = replicate 60 1000000\<rparr>) = Low \<and>
   app_calculate_volatility \<lparr>closes = replicate 60 100, highs = replicate 60 100,
       lows = replicate 60 100, volumes = replicate 60 1000000\<rparr> = Fin 0 \<and>
   calculate_support \<lparr>closes = replicate 60 100, highs = replicate 60 100,
       lows = replicate 60 100, volumes = replicate 60 1000000\<rparr> = Fin 100 \<and>
   calculate_resistance \<lparr>closes = replicate 60 100, highs = replicate 60 100,
       lows = replicate 60 100, volumes = replicate 60 1000000\<rparr> = Fin 100"
proof -
  define sd where "sd = \<lparr>closes = replicate 60 (100::real), highs = replicate 60 100,
       lows = replicate 60 100, volumes = replicate 60 1000000\<rparr>"
  have rsi: "calculate_rsi (replicate 60 100) 14 = Fin 50"
    and gain: "last (rsi_gain (replicate 60 100) 14) = Fin 0"
    and loss: "last (rsi_loss (replicate 60 100) 14) = Fin 0"
    and rs: "last (rsi_rs (replicate 60 100) 14) = NaN"
    using flat_rsi[of 60 100] by simp_all
  have macd: "calculate_macd (replicate 60 100) 12 26 9
                = \<lparr>md_macd = Fin 0, md_signal = Fin 0, md_histogram = Fin 0\<rparr>"
    by (rule flat_macd) simp
  have ma20: "calculate_ma (replicate 60 100) 20 = Fin 100" by (rule flat_ma) simp_all
  have ma50: "calculate_ma (replicate 60 100) 50 = Fin 100" by (rule flat_ma) simp_all
  have bb: "calculate_bollinger_bands (replicate 60 100) 20 2
              = \<lparr>bb_upper = Fin 100, bb_middle = Fin 100, bb_lower = Fin 100\<rparr>"
    by (rule flat_bollinger) simp
  have atr: "calculate_atr (replicate 60 100) (replicate 60 100) (replicate 60 100) 14 = Fin 0"
    by (rule flat_atr) simp_all
  have i_rsi: "calculate_indicators sd ''rsi'' = Some (Fin 50)"
    by (simp add: calculate_indicators_def Let_def sd_def rsi)
  have i_macd: "calculate_indicators sd ''macd'' = Some (Fin 0)"
    by (simp add: calculate_indicators_def Let_def sd_def macd)
  have i_ma20: "calculate_indicators sd ''ma20'' = Some (Fin 100)"
    by (simp add: calculate_indicators_def Let_def sd_def ma20)
  have i_ma50: "calculate_indicators sd ''ma50'' = Some (Fin 100)"
    by (simp add: calculate_indicators_def Let_def sd_def ma50)
  have i_bbu: "calculate_indicators sd ''bb_upper'' = Some (Fin 100)"
    by (simp add: calculate_indicators_def Let_def sd_def bb)
  have i_bbl: "calculate_indicators sd ''bb_lower'' = Some (Fin 100)"
    by (simp add: calculate_indicators_def Let_def sd_def bb)
  have i_atr: "calculate_indicators sd ''atr'' = Some (Fin 0)"
    by (simp add: calculate_indicators_def Let_def sd_def atr)
  have sig: "determine_signal (calculate_indicators sd) = HOLD"
    by (simp add: determine_signal_def buy_signals_def sell_signals_def dict_get_def
        i_rsi i_macd fgt_def)
  have risk: "determine_risk_level (calculate_indicators sd) = Low"
    by (simp add: determine_risk_level_def dict_get_def i_rsi fgt_def)
  have vol: "app_calculate_volatility sd = Fin 0"
    unfolding sd_def by (rule flat_app_volatility) simp_all
  have sup: "calculate_support sd = Fin 100"
    unfolding sd_def by (rule flat_support) simp
  have res: "calculate_resistance sd = Fin 100"
    unfolding sd_def by (rule flat_resistance) simp
  show ?thesis
    unfolding sd_def[symmetric]
    using i_rsi gain loss rs i_macd i_ma20 i_ma50 i_bbu i_bbl i_atr sig risk vol sup res
    by blast
qed

section \<open>Oscillator ranges\<close>

lemma stoch_short_series:
  assumes "length hs = length cs" and "length ls = length cs" and "length cs < kp"
  shows "st_k (calculate_stochastic hs ls cs kp dp) = Fin 50"
    and "st_d (calculate_stochastic hs ls cs kp dp) = Fin 50"
proof -
  define ks where "ks = stoch_k_series hs ls cs kp"
  have len: "length ks = length cs"
    unfolding ks_def by (rule length_stoch_k_series[OF assms(1,2)])
  have all: "\<forall>x \<in> set ks. x = NaN"
  proof
    fix x assume "x \<in> set ks"
    then obtain i where i: "i < length ks" "x = ks ! i" by (metis in_set_conv_nth)
    then have "i < length cs" using len by simp
    then show "x = NaN"
      using stoch_k_nth_undefined[OF assms(1,2), of i kp] assms(3) i(2) unfolding ks_def by simp
  qed
  have sk: "st_k (calculate_stochastic hs ls cs kp dp)
              = (if ks \<noteq> [] \<and> \<not> is_nan (last ks) then last ks else Fin 50)"
    by (simp add: calculate_stochastic_def Let_def ks_def)
  have sd: "st_d (calculate_stochastic hs ls cs kp dp)
              = (if rolling agg_mean dp ks \<noteq> [] \<and> \<not> is_nan (last (rolling agg_mean dp ks))
                 then last (rolling agg_mean dp ks) else Fin 50)"
    by (simp add: calculate_stochastic_def Let_def ks_def)
  show "st_k (calculate_stochastic hs ls cs kp dp) = Fin 50"
  proof (cases "ks = []")
    case True
    then show ?thesis by (simp add: sk)
  next
    case False
    then have "last ks \<in> set ks" by simp
    then have "last ks = NaN" using all by blast
    then show ?thesis by (simp add: sk)
  qed
  show "st_d (calculate_stochastic hs ls cs kp dp) = Fin 50"
  proof (cases "ks = []")
    case True
    then show ?thesis by (simp add: sd rolling_def)
  next
    case False
    have "\<forall>x \<in> set ks. x = NaN \<or> (\<exists>r. x = Fin r \<and> (1::real) \<le> r \<and> r \<le> 0)"
      using all by blast
    then have "last (rolling agg_mean dp ks) = NaN"
      using rolling_mean_last_range[OF False, of 1 0 dp] by fastforce
    then show ?thesis by (simp add: sd)
  qed
qed

text \<open>
  C4, as stated, fails: nothing relates the close to the high and the low of a bar. On
  16 bars with high 10, low 5 and close 20 both \<open>%K\<close> and \<open>%D\<close> are 300.
\<close>

theorem stochastic_counterexample:
  "st_k (calculate_stochastic (replicate 16 10) (replicate 16 5) (replicate 16 20) 14 3) = Fin 300 \<and>
   st_d (calculate_stochastic (replicate 16 10) (replicate 16 5) (replicate 16 20) 14 3) = Fin 300"
  using flat_stochastic[where kp=14 and dp=3 and n=16 and h=10 and l=5 and c=20] by simp

text \<open>
  C4, amended. For every price series the RSI lies in \<open>[0, 100]\<close>. For every series
  of bars of equal-length columns in which each bar has \<open>low \<le> close \<le> high\<close>, the
  stochastic \<open>%K\<close> and \<open>%D\<close> each lie in \<open>[0, 100]\<close>; and on fewer than 14 bars,
  where the rolling window is undefined, both are exactly 50.0.
\<close>

theorem oscillator_ranges:
  "(\<exists>x. calculate_rsi ps 14 = Fin x \<and> 0 \<le> x \<and> x \<le> 100) \<and>
   (length hs = length cs \<and> length ls = length cs \<and>
    (\<forall>i < length cs. ls ! i \<le> cs ! i \<and> cs ! i \<le> hs ! i) \<longrightarrow>
      (\<exists>k d. st_k (calculate_stochastic hs ls cs 14 3) = Fin k \<and> 0 \<le> k \<and> k \<le> 100 \<and>
             st_d (calculate_stochastic hs ls cs 14 3) = Fin d \<and> 0 \<le> d \<and> d \<le> 100)) \<and>
   (length hs = length cs \<and> length ls = length cs \<and> length cs < 14 \<longrightarrow>
      st_k (calculate_stochastic hs ls cs 14 3) = Fin 50 \<and>
      st_d (calculate_stochastic hs ls cs 14 3) = Fin 50)"
  using calculate_rsi_range[of ps 14] calculate_stochastic_range[of hs cs ls 14 3]
    stoch_short_series[of hs cs ls 14 3]
  by blast

text \<open>
  The amended C4 on 16 bars with high 10, low 5 and close 7 (\<open>%K = 40\<close>), and on 3
  bars (the fallback).
\<close>

theorem oscillator_ranges_witness:
  "length (replicate 16 (10::real)) = length (replicate 16 (7::real)) \<and>
   length (replicate 16 (5::real)) = length (replicate 16 (7::real)) \<and>
   replicate 16 (5::real) ! 15 \<le> replicate 16 7 ! 15 \<and>
   replicate 16 (7::real) ! 15 \<le> replicate 16 10 ! 15 \<and>
   st_k (calculate_stochastic (replicate 16 10) (replicate 16 5) (replicate 16 7) 14 3) = Fin 40 \<and>
   (\<exists>k d. st_k (calculate_stochastic (replicate 16 10) (replicate 16 5) (replicate 16 7) 14 3) = Fin k
          \<and> 0 \<le> k \<and> k \<le> 100 \<and>
          st_d (calculate_stochastic (replicate 16 10) (replicate 16 5) (replicate 16 7) 14 3) = Fin d
          \<and> 0 \<le> d \<and> d \<le> 100) \<and>
   length (replicate 3 (1::real)) < 14 \<and>
   st_k (calculate_stochastic (replicate 3 1) (replicate 3 1) (replicate 3 1) 14 3) = Fin 50"
proof -
  have v: "\<forall>i < length (replicate 16 (7::real)).
             replicate 16 (5::real) ! i \<le> replicate 16 7 ! i \<and>
             replicate 16 (7::real) ! i \<le> replicate 16 10 ! i"
    by simp
  have k: "st_k (calculate_stochastic (replicate 16 10) (replicate 16 5) (replicate 16 7) 14 3) = Fin 40"
    using flat_stochastic(1)[where kp=14 and dp=3 and n=16 and h=10 and l=5 and c=7] by simp
  show ?thesis
    using oscillator_ranges[of "[]" "replicate 16 10" "replicate 16 7" "replicate 16 5"]
      oscillator_ranges[of "[]" "replicate 3 1" "replicate 3 1" "replicate 3 1"] v k
    by simp
qed

section \<open>Completeness of the indicator set\<close>






















end
